theory Spec2Isabelle
  imports Complex_Main
begin

section \<open>Numbers and small JavaScript idioms\<close>

text \<open>
  JavaScript numbers are doubles. In \<open>aggregateSignals\<close> every arithmetic operation is
  modelled as the double operation (the exact result rounded to the nearest double, see
  the next section): the function rounds what it computes to integers, and the last bit
  of the double decides some of these roundings (85 times 0.7 is a double just below 59.5
  and rounds to 59). In the other functions numbers are taken as mathematical reals.
  The non-finite values (NaN, the infinities) that arise only from dividing by zero are
  outside the model; where the source divides, the model states the divisor's condition
  in the theorem that depends on the quotient.
\<close>

text \<open>\<open>Math.round\<close>: the nearest integer, halves rounded towards plus infinity.\<close>

definition Math_round :: "real \<Rightarrow> real" where
  "Math_round x = of_int \<lfloor>x + 1 / 2\<rfloor>"

text \<open>\<open>x || d\<close> for a numeric property that may be undefined: undefined and 0 are falsy.\<close>

definition num_or :: "real option \<Rightarrow> real \<Rightarrow> real" where
  "num_or x d = (case x of None \<Rightarrow> d | Some v \<Rightarrow> if v = 0 then d else v)"

text \<open>Truthiness of a string property that may be undefined: the empty string is falsy.\<close>

definition truthy :: "string option \<Rightarrow> bool" where
  "truthy s = (case s of None \<Rightarrow> False | Some v \<Rightarrow> v \<noteq> [])"

text \<open>\<open>xs.slice(-n)\<close> for \<open>n \<ge> 0\<close>: the last \<open>n\<close> elements; \<open>slice(-0)\<close> is the whole array.\<close>

definition slice_last :: "nat \<Rightarrow> 'a list \<Rightarrow> 'a list" where
  "slice_last n xs = (if n = 0 then xs else drop (length xs - n) xs)"

section \<open>Double arithmetic\<close>

text \<open>
  The binary exponent of a positive real: the integer \<open>e\<close> with
  \<open>2 ^ e \<le> x < 2 ^ (e + 1)\<close>, found by halving a number that is at least 1 and by
  doubling a number below 1.
\<close>

function expo_up :: "real \<Rightarrow> int" where
  "expo_up x = (if 2 \<le> x then expo_up (x / 2) + 1 else 0)"
  by pat_completeness auto
termination
proof (relation "measure (\<lambda>x. nat \<lceil>x\<rceil>)")
  show "wf (measure (\<lambda>x. nat \<lceil>x\<rceil>))" by simp
next
  fix x :: real
  assume "2 \<le> x"
  then have "x / 2 \<le> x - 1" by simp
  then have "\<lceil>x / 2\<rceil> \<le> \<lceil>x - 1\<rceil>" by (rule ceiling_mono)
  moreover have "0 < \<lceil>x\<rceil>" using \<open>2 \<le> x\<close> by linarith
  ultimately show "(x / 2, x) \<in> measure (\<lambda>x. nat \<lceil>x\<rceil>)" by simp
qed

function expo_down :: "real \<Rightarrow> int" where
  "expo_down x = (if 0 < x \<and> x < 1 then expo_down (x * 2) - 1 else 0)"
  by pat_completeness auto
termination
proof (relation "measure (\<lambda>x. nat \<lceil>1 / x\<rceil>)")
  show "wf (measure (\<lambda>x. nat \<lceil>1 / x\<rceil>))" by simp
next
  fix x :: real
  assume a: "0 < x \<and> x < 1"
  have half: "\<lceil>y / 2\<rceil> < \<lceil>y\<rceil>" if "1 < y" for y :: real
  proof (cases "2 \<le> y")
    case True
    then have "y / 2 \<le> y - 1" by simp
    then have "\<lceil>y / 2\<rceil> \<le> \<lceil>y - 1\<rceil>" by (rule ceiling_mono)
    then show ?thesis by simp
  next
    case False
    then have "y / 2 \<le> 1" by simp
    then have "\<lceil>y / 2\<rceil> \<le> 1" by (simp add: ceiling_le_iff)
    moreover have "1 < \<lceil>y\<rceil>" using that by (simp add: less_ceiling_iff)
    ultimately show ?thesis by linarith
  qed
  have y: "1 < 1 / x" using a by simp
  have h: "1 / (x * 2) = (1 / x) / 2" by simp
  have "\<lceil>(1 / x) / 2\<rceil> < \<lceil>1 / x\<rceil>" using y by (rule half)
  moreover have "0 < \<lceil>1 / x\<rceil>" using a by (simp add: less_ceiling_iff)
  ultimately show "(x * 2, x) \<in> measure (\<lambda>x. nat \<lceil>1 / x\<rceil>)"
    unfolding h by simp
qed

declare expo_up.simps [simp del] expo_down.simps [simp del]

definition expo2 :: "real \<Rightarrow> int" where
  "expo2 x = (if 1 \<le> x then expo_up x else expo_down x)"

text \<open>The nearest integer, a tie going to the even one.\<close>

definition round_even :: "real \<Rightarrow> int" where
  "round_even y =
     (let f = \<lfloor>y\<rfloor>; d = y - of_int f
      in if d < 1 / 2 then f else if 1 / 2 < d then f + 1
         else if even f then f else f + 1)"

text \<open>
  The double nearest to a real (IEEE 754 binary64, round to nearest, ties to even): 53
  significant bits, so numbers with binary exponent \<open>e\<close> are rounded to a multiple of
  \<open>2 ^ (e - 52)\<close>. The exponent is not bounded here: overflow and the subnormal numbers
  (magnitudes from \<open>2 ^ 1024\<close> and below \<open>2 ^ (- 1022)\<close>) are outside the model.
\<close>

definition fl :: "real \<Rightarrow> real" where
  "fl x = (if x = 0 then 0
           else let u = 2 powi (expo2 \<bar>x\<bar> - 52)
                in sgn x * of_int (round_even (\<bar>x\<bar> / u)) * u)"

text \<open>The four operations on doubles, and a decimal literal \<open>c\<close> read as \<open>fl c\<close>.\<close>

definition dadd :: "real \<Rightarrow> real \<Rightarrow> real" where
  "dadd x y = fl (x + y)"

definition dsub :: "real \<Rightarrow> real \<Rightarrow> real" where
  "dsub x y = fl (x - y)"

definition dmul :: "real \<Rightarrow> real \<Rightarrow> real" where
  "dmul x y = fl (x * y)"

definition ddiv :: "real \<Rightarrow> real \<Rightarrow> real" where
  "ddiv x y = fl (x / y)"

section \<open>PerformanceTracker: accuracy scoring\<close>

text \<open>\<open>calculateConfidenceAccuracy(confidence, baseAccuracy)\<close>.\<close>

definition calculateConfidenceAccuracy :: "real \<Rightarrow> real \<Rightarrow> real" where
  "calculateConfidenceAccuracy confidence baseAccuracy =
     (let confidenceError = \<bar>confidence - baseAccuracy\<bar> in
      if confidenceError < 10 then 100
      else if confidenceError < 20 then 80
      else if confidenceError < 30 then 60
      else 40)"

text \<open>
  The local variable \<open>baseAccuracy\<close> of \<open>calculateAccuracy\<close>, as the if-chain of the
  source assigns it.
\<close>

definition baseAccuracy :: "string \<Rightarrow> real \<Rightarrow> real" where
  "baseAccuracy signal actualMove =
     (if signal = ''BUY'' \<and> actualMove > 0 then min 100 (70 + actualMove * 10)
      else if signal = ''SELL'' \<and> actualMove < 0 then min 100 (70 + \<bar>actualMove\<bar> * 10)
      else if signal = ''HOLD'' \<and> \<bar>actualMove\<bar> < 0.2 then 80
      else if signal = ''HOLD'' \<and> \<bar>actualMove\<bar> < 0.5 then 60
      else max 0 (30 - \<bar>actualMove\<bar> * 5))"

text \<open>\<open>calculateAccuracy(signal, actualMove, confidence)\<close>.\<close>

definition calculateAccuracy :: "string \<Rightarrow> real \<Rightarrow> real \<Rightarrow> real" where
  "calculateAccuracy signal actualMove confidence =
     (let b = baseAccuracy signal actualMove;
          confidenceAccuracy = calculateConfidenceAccuracy confidence b
      in max 0 (min 100 ((b + confidenceAccuracy) / 2)))"

text \<open>The price movement in percent, as \<open>validatePrediction\<close> computes it.\<close>

definition actualMoveOf :: "real \<Rightarrow> real \<Rightarrow> real" where
  "actualMoveOf actualPrice targetPrice = ((actualPrice - targetPrice) / targetPrice) * 100"

section \<open>PerformanceTracker: state\<close>

text \<open>
  A numeric property that may be \<open>null\<close>, read as a number: \<open>null\<close> coerces to 0 in
  sums and comparisons.
\<close>

definition nullnum :: "real option \<Rightarrow> real" where
  "nullnum x = (case x of None \<Rightarrow> 0 | Some v \<Rightarrow> v)"

text \<open>\<open>a > b\<close> for two numeric properties that may be undefined: false when either is.\<close>

definition gt_undef :: "real option \<Rightarrow> real option \<Rightarrow> bool" where
  "gt_undef a b = (case a of None \<Rightarrow> False
                   | Some x \<Rightarrow> (case b of None \<Rightarrow> False | Some y \<Rightarrow> x > y))"

text \<open>
  The in-place update of the object that \<open>Array.prototype.find\<close> returned: the first
  element satisfying the predicate is changed, the array keeps its order.
\<close>

fun update_first :: "('a \<Rightarrow> bool) \<Rightarrow> ('a \<Rightarrow> 'a) \<Rightarrow> 'a list \<Rightarrow> 'a list" where
  "update_first P f [] = []"
| "update_first P f (x # xs) = (if P x then f x # xs else x # update_first P f xs)"

text \<open>
  The \<open>agentData\<close> argument of \<open>trackPrediction\<close>; the tracker reads only these two
  properties, and a caller may leave either out.
\<close>

record agentData =
  aiWeight :: "real option"
  traditionalWeight :: "real option"

text \<open>What \<open>captureMarketConditions\<close> returned when the prediction was tracked.\<close>

record marketConditions =
  mc_price :: real
  mc_volatility :: real
  mc_volume :: real
  mc_time :: nat
  mc_changePercent :: real

text \<open>
  A tracked prediction. Times are milliseconds; \<open>None\<close> is \<open>null\<close> (or, for
  \<open>actualPrice\<close>, a property not yet set, and for \<open>agentData\<close>, an argument not given).
\<close>

record prediction =
  p_id :: string
  p_signal :: string
  p_confidence :: real
  targetPrice :: real
  timestamp :: nat
  actualOutcome :: "real option"
  accuracy :: "real option"
  validationTime :: "nat option"
  actualPrice :: "real option"
  p_agentData :: "agentData option"
  p_marketConditions :: marketConditions

text \<open>An entry of \<open>this.results\<close>.\<close>

record resultEntry =
  r_id :: string
  r_signal :: string
  r_predicted :: real
  r_actual :: real
  r_accuracy :: real
  r_confidence :: real
  r_timestamp :: nat
  r_validationTime :: nat

record modelWeights =
  ai :: real
  technical :: real
  historical :: real

record accuracyThresholds =
  excellent :: real
  good :: real
  poor :: real

record tracker =
  predictions :: "prediction list"
  results :: "resultEntry list"
  weights :: modelWeights
  thresholds :: accuracyThresholds
  maxPredictions :: nat

text \<open>The constructor.\<close>

definition PerformanceTracker_new :: tracker where
  "PerformanceTracker_new =
     \<lparr>predictions = [], results = [],
      weights = \<lparr>ai = 0.6, technical = 0.4, historical = 0.0\<rparr>,
      thresholds = \<lparr>excellent = 80, good = 65, poor = 45\<rparr>,
      maxPredictions = 500\<rparr>"

text \<open>
  \<open>trackPrediction\<close>. The generated id and the captured market conditions are inputs;
  the timer it sets is the later \<open>Validate\<close> event of the run below.
\<close>

definition trackPrediction ::
  "tracker \<Rightarrow> string \<Rightarrow> string \<Rightarrow> real \<Rightarrow> real \<Rightarrow> nat \<Rightarrow> agentData option \<Rightarrow> marketConditions
     \<Rightarrow> tracker" where
  "trackPrediction t newId signal confidence target ts ad mc =
     (let pr = \<lparr>p_id = newId, p_signal = signal, p_confidence = confidence,
                 targetPrice = target, timestamp = ts, actualOutcome = None,
                 accuracy = None, validationTime = None, actualPrice = None,
                 p_agentData = ad, p_marketConditions = mc\<rparr>;
          ps = predictions t @ [pr]
      in t\<lparr>predictions :=
             (if length ps > maxPredictions t then slice_last (maxPredictions t) ps else ps)\<rparr>)"

text \<open>The result of \<open>getRecentAccuracy\<close>.\<close>

record recentAccuracy =
  overall :: real
  ra_count :: nat
  trend :: string

definition sumAccuracy :: "prediction list \<Rightarrow> real" where
  "sumAccuracy ps = foldl (\<lambda>s p. s + nullnum (accuracy p)) 0 ps"

definition getRecentAccuracy :: "tracker \<Rightarrow> nat \<Rightarrow> recentAccuracy" where
  "getRecentAccuracy t n =
     (let recentPredictions =
            slice_last n (filter (\<lambda>p. actualOutcome p \<noteq> None) (predictions t))
      in if length recentPredictions = 0
         then \<lparr>overall = 50, ra_count = 0, trend = ''INSUFFICIENT_DATA''\<rparr>
         else
           let overallAccuracy = sumAccuracy recentPredictions / real (length recentPredictions);
               firstHalf = take (length recentPredictions div 2) recentPredictions;
               secondHalf = drop (length recentPredictions div 2) recentPredictions;
               tr = (if length firstHalf > 0 \<and> length secondHalf > 0
                     then let firstAccuracy = sumAccuracy firstHalf / real (length firstHalf);
                              secondAccuracy = sumAccuracy secondHalf / real (length secondHalf);
                              tr1 = (if secondAccuracy > firstAccuracy + 5 then ''IMPROVING''
                                     else ''STABLE'')
                          in if secondAccuracy < firstAccuracy - 5 then ''DECLINING'' else tr1
                     else ''STABLE'')
           in \<lparr>overall = overallAccuracy, ra_count = length recentPredictions, trend = tr\<rparr>)"

text \<open>
  \<open>adjustModelWeights\<close>. \<open>None\<close> is the TypeError of reading \<open>agentData.aiWeight\<close> when
  the prediction was tracked without agent data; the read happens only inside the
  excellent and the poor branch.
\<close>

definition adjustModelWeights :: "tracker \<Rightarrow> prediction \<Rightarrow> tracker option" where
  "adjustModelWeights t pr =
     (let acc = nullnum (accuracy pr);
          recent = getRecentAccuracy t 20;
          w = weights t
      in if acc > excellent (thresholds t) then
           (case p_agentData pr of
              None \<Rightarrow> None
            | Some ad \<Rightarrow>
                if gt_undef (aiWeight ad) (traditionalWeight ad) \<and> acc > overall recent
                then Some (t\<lparr>weights := w\<lparr>ai := min 0.8 (ai w + 0.02),
                                            technical := max 0.2 (technical w - 0.02)\<rparr>\<rparr>)
                else Some t)
         else if acc < poor (thresholds t) then
           (case p_agentData pr of
              None \<Rightarrow> None
            | Some ad \<Rightarrow>
                if gt_undef (aiWeight ad) (traditionalWeight ad)
                then Some (t\<lparr>weights := w\<lparr>ai := max 0.3 (ai w - 0.03),
                                            technical := min 0.7 (technical w + 0.03)\<rparr>\<rparr>)
                else Some t)
         else Some t)"

text \<open>
  \<open>validatePrediction\<close>, one atomic step. \<open>fetched\<close> is the price that
  \<open>getNiftyIndexData\<close> delivers (\<open>None\<close>: the call throws and the catch block leaves
  the state as it is); \<open>now\<close> is the clock. An exception of \<open>adjustModelWeights\<close> is
  caught after the prediction and the results were written, so these writes stay.
\<close>

definition validatePrediction :: "tracker \<Rightarrow> string \<Rightarrow> real option \<Rightarrow> nat \<Rightarrow> tracker" where
  "validatePrediction t predictionId fetched now =
     (case find (\<lambda>p. p_id p = predictionId) (predictions t) of
        None \<Rightarrow> t
      | Some pr \<Rightarrow>
          if actualOutcome pr \<noteq> None then t
          else
            (case fetched of
               None \<Rightarrow> t
             | Some price \<Rightarrow>
                 let actualMove = actualMoveOf price (targetPrice pr);
                     acc = calculateAccuracy (p_signal pr) actualMove (p_confidence pr);
                     resolve = (\<lambda>p. p\<lparr>actualOutcome := Some actualMove, accuracy := Some acc,
                                       validationTime := Some now, actualPrice := Some price\<rparr>);
                     t1 = t\<lparr>predictions :=
                               update_first (\<lambda>p. p_id p = predictionId) resolve (predictions t),
                            results := results t @
                               [\<lparr>r_id = p_id pr, r_signal = p_signal pr,
                                 r_predicted = targetPrice pr, r_actual = price,
                                 r_accuracy = acc, r_confidence = p_confidence pr,
                                 r_timestamp = timestamp pr, r_validationTime = now\<rparr>]\<rparr>
                 in (case adjustModelWeights t1 (resolve pr) of
                       None \<Rightarrow> t1
                     | Some t2 \<Rightarrow>
                         if length (results t2) > maxPredictions t2
                         then t2\<lparr>results := slice_last (maxPredictions t2) (results t2)\<rparr>
                         else t2)))"

text \<open>
  The tracker as a state machine: a prediction is tracked, or a validation timer fires.
\<close>

datatype event =
  Track string string real real nat "agentData option" marketConditions
| Validate string "real option" nat

fun step :: "tracker \<Rightarrow> event \<Rightarrow> tracker" where
  "step t (Track newId signal confidence target ts ad mc) =
     trackPrediction t newId signal confidence target ts ad mc"
| "step t (Validate predictionId fetched now) = validatePrediction t predictionId fetched now"

definition run :: "tracker \<Rightarrow> event list \<Rightarrow> tracker" where
  "run t evs = foldl step t evs"

section \<open>PerformanceTracker: confidence calibration\<close>

text \<open>A range of \<open>calculateConfidenceCalibration\<close> with the predictions pushed to it.\<close>

record crange =
  rmin :: real
  rmax :: real
  rpredictions :: "prediction list"

definition ranges_init :: "crange list" where
  "ranges_init =
     [\<lparr>rmin = 80, rmax = 100, rpredictions = []\<rparr>,
      \<lparr>rmin = 60, rmax = 79, rpredictions = []\<rparr>,
      \<lparr>rmin = 40, rmax = 59, rpredictions = []\<rparr>,
      \<lparr>rmin = 20, rmax = 39, rpredictions = []\<rparr>]"

text \<open>The body of the \<open>forEach\<close>: the first range that holds the confidence gets the prediction.\<close>

definition assignRange :: "crange list \<Rightarrow> prediction \<Rightarrow> crange list" where
  "assignRange rs p =
     update_first (\<lambda>r. p_confidence p \<ge> rmin r \<and> p_confidence p \<le> rmax r)
       (\<lambda>r. r\<lparr>rpredictions := rpredictions r @ [p]\<rparr>) rs"

definition groupByRange :: "prediction list \<Rightarrow> crange list" where
  "groupByRange ps = foldl assignRange ranges_init ps"

text \<open>
  An entry of the calibration report. The source labels it with the string
  \<open>min-max\<close>; the model keeps the two bounds. The averages are absent for an empty range.
\<close>

record calibrationEntry =
  range_min :: real
  range_max :: real
  calibration :: real
  c_count :: nat
  avgConfidence :: "real option"
  avgAccuracy :: "real option"

definition calibrationOf :: "crange \<Rightarrow> calibrationEntry" where
  "calibrationOf r =
     (if length (rpredictions r) = 0
      then \<lparr>range_min = rmin r, range_max = rmax r, calibration = 0, c_count = 0,
            avgConfidence = None, avgAccuracy = None\<rparr>
      else
        let avgC = foldl (\<lambda>s p. s + p_confidence p) 0 (rpredictions r)
                     / real (length (rpredictions r));
            avgA = sumAccuracy (rpredictions r) / real (length (rpredictions r))
        in \<lparr>range_min = rmin r, range_max = rmax r, calibration = \<bar>avgC - avgA\<bar>,
            c_count = length (rpredictions r),
            avgConfidence = Some avgC, avgAccuracy = Some avgA\<rparr>)"

definition calculateConfidenceCalibration :: "prediction list \<Rightarrow> calibrationEntry list" where
  "calculateConfidenceCalibration ps = map calibrationOf (groupByRange ps)"

section \<open>HistoricalAnalysis: the pattern matcher\<close>

text \<open>
  A historical sample, with the properties the matcher reads, and the current market
  conditions it is asked about.
\<close>

record dataPoint =
  dp_volatility :: real
  dp_volume :: real
  dp_momentum :: real
  dp_hour :: int
  dp_signal :: string
  dp_actualOutcome :: real

record currentData =
  c_volatility :: real
  c_momentum :: real
  c_volumeRatio :: real
  c_hour :: int

definition findSimilarConditions :: "dataPoint list \<Rightarrow> currentData \<Rightarrow> dataPoint list" where
  "findSimilarConditions historicalData current =
     filter (\<lambda>point.
        let volSimilar = \<bar>dp_volatility point - c_volatility current\<bar> < 0.5;
            momentumSimilar = \<bar>dp_momentum point - c_momentum current\<bar> < 0.3;
            volumeSimilar = \<bar>dp_volume point / 50000000 - c_volumeRatio current\<bar> < 0.3;
            timeSimilar = \<bar>dp_hour point - c_hour current\<bar> \<le> 1
        in volSimilar \<and> momentumSimilar \<and> volumeSimilar \<and> timeSimilar) historicalData"

definition calculatePatternAccuracy :: "dataPoint list \<Rightarrow> real" where
  "calculatePatternAccuracy similarConditions =
     (if length similarConditions = 0 then 50
      else
        let correctPredictions = filter (\<lambda>condition.
              let predicted = dp_signal condition; actual = dp_actualOutcome condition
              in if predicted = ''BUY'' \<and> actual > 0 then True
                 else if predicted = ''SELL'' \<and> actual < 0 then True
                 else if predicted = ''HOLD'' \<and> \<bar>actual\<bar> < 0.1 then True
                 else False) similarConditions
        in Math_round (real (length correctPredictions) / real (length similarConditions) * 100))"

definition calculateAvgOutcome :: "dataPoint list \<Rightarrow> real" where
  "calculateAvgOutcome similarConditions =
     (if length similarConditions = 0 then 0
      else foldl (\<lambda>s condition. s + dp_actualOutcome condition) 0 similarConditions
             / real (length similarConditions))"

definition calculateHistoricalConfidence :: "real \<Rightarrow> string" where
  "calculateHistoricalConfidence acc =
     (if acc \<ge> 80 then ''HIGH'' else if acc \<ge> 60 then ''MEDIUM'' else ''LOW'')"

definition calculateConfidenceAdjustment :: "real \<Rightarrow> real" where
  "calculateConfidenceAdjustment acc =
     (if acc \<ge> 80 then 1.2 else if acc \<ge> 60 then 1.0 else if acc \<ge> 40 then 0.8 else 0.6)"

definition identifyDominantPattern :: "dataPoint list \<Rightarrow> string" where
  "identifyDominantPattern similarConditions =
     (if length similarConditions = 0 then ''INSUFFICIENT_DATA''
      else
        let sigs = map dp_signal similarConditions;
            buyCount = length (filter (\<lambda>s. s = ''BUY'') sigs);
            sellCount = length (filter (\<lambda>s. s = ''SELL'') sigs);
            holdCount = length (filter (\<lambda>s. s = ''HOLD'') sigs);
            mx = max (max buyCount sellCount) holdCount
        in if mx = buyCount then ''BULLISH_PATTERN''
           else if mx = sellCount then ''BEARISH_PATTERN''
           else ''NEUTRAL_PATTERN'')"

definition calculateRiskAdjustment :: "dataPoint list \<Rightarrow> real" where
  "calculateRiskAdjustment similarConditions =
     (if length similarConditions = 0 then 1.0
      else
        let outcomes = map (\<lambda>c. \<bar>dp_actualOutcome c\<bar>) similarConditions;
            avgVolatility = foldl (\<lambda>s outcome. s + outcome) 0 outcomes / real (length outcomes)
        in if avgVolatility > 0.5 then 1.3 else if avgVolatility > 0.3 then 1.1 else 1.0)"

record historicalResult =
  similarCount :: nat
  avgOutcome :: real
  h_accuracy :: real
  h_confidence :: string
  confidenceAdjustment :: real
  dominantPattern :: string
  h_riskAdjustment :: real

text \<open>
  \<open>analyzeHistoricalPatterns\<close> on the loaded sample set (the samples are generated at
  random on first use; here they are the argument).
\<close>

definition analyzeHistoricalPatterns :: "dataPoint list \<Rightarrow> currentData \<Rightarrow> historicalResult" where
  "analyzeHistoricalPatterns historicalData current =
     (let similarConditions = findSimilarConditions historicalData current;
          patternAccuracy = calculatePatternAccuracy similarConditions;
          adjustment = calculateConfidenceAdjustment patternAccuracy
      in \<lparr>similarCount = length similarConditions,
          avgOutcome = calculateAvgOutcome similarConditions,
          h_accuracy = patternAccuracy,
          h_confidence = calculateHistoricalConfidence patternAccuracy,
          confidenceAdjustment = adjustment,
          dominantPattern = identifyDominantPattern similarConditions,
          h_riskAdjustment = calculateRiskAdjustment similarConditions\<rparr>)"

text \<open>The result the same method returns from its catch block.\<close>

definition getFallbackHistoricalAnalysis :: historicalResult where
  "getFallbackHistoricalAnalysis =
     \<lparr>similarCount = 0, avgOutcome = 0, h_accuracy = 50, h_confidence = ''MEDIUM'',
      confidenceAdjustment = 1.0, dominantPattern = ''INSUFFICIENT_DATA'',
      h_riskAdjustment = 1.0\<rparr>"

section \<open>AgentOrchestrator: fusing the agents' results\<close>

text \<open>
  What an agent's \<open>analyze\<close> returns, as far as the fusion reads it. \<open>None\<close> is a
  property that is undefined.
\<close>

record agentResult =
  ar_signal :: "string option"
  ar_confidence :: "real option"

text \<open>The keys of \<open>agentWeights\<close> and of the object \<open>runAnalysis\<close> passes on.\<close>

datatype agentType = Technical | Sentiment | Research | Risk

record agentWeights =
  w_technical :: real
  w_sentiment :: real
  w_research :: real
  w_risk :: real

definition weightOf :: "agentWeights \<Rightarrow> agentType \<Rightarrow> real" where
  "weightOf w k = (case k of Technical \<Rightarrow> w_technical w | Sentiment \<Rightarrow> w_sentiment w
                   | Research \<Rightarrow> w_research w | Risk \<Rightarrow> w_risk w)"

text \<open>The weights the constructor sets.\<close>

definition default_agentWeights :: agentWeights where
  "default_agentWeights =
     \<lparr>w_technical = fl 0.35, w_sentiment = fl 0.25, w_research = fl 0.25,
      w_risk = fl 0.15\<rparr>"

record agentResults =
  res_technical :: agentResult
  res_sentiment :: agentResult
  res_research :: agentResult
  res_risk :: agentResult

definition resultOf :: "agentResults \<Rightarrow> agentType \<Rightarrow> agentResult" where
  "resultOf rs k = (case k of Technical \<Rightarrow> res_technical rs | Sentiment \<Rightarrow> res_sentiment rs
                    | Research \<Rightarrow> res_research rs | Risk \<Rightarrow> res_risk rs)"

text \<open>\<open>Object.keys(results)\<close>, in the order the object literal lists them.\<close>

definition Object_keys :: "agentType list" where
  "Object_keys = [Technical, Sentiment, Research, Risk]"

record signals =
  BUY :: real
  SELL :: real
  HOLD :: real

text \<open>
  A part of the reasoning text. The agent line interpolates the agent type, the signal
  and the confidence into a template string; the model keeps the three values.
\<close>

datatype reasoningPart =
  AgentLine agentType string "real option"
| Line string

text \<open>The variables the \<open>forEach\<close> loop of \<open>aggregateSignals\<close> updates.\<close>

record tally =
  sigs :: signals
  totalConfidence :: real
  validAgents :: nat
  reasoningParts :: "reasoningPart list"

definition tally_init :: tally where
  "tally_init = \<lparr>sigs = \<lparr>BUY = 0, SELL = 0, HOLD = 0\<rparr>, totalConfidence = 0,
                  validAgents = 0, reasoningParts = []\<rparr>"

text \<open>The loop body, for one key.\<close>

definition processAgent :: "agentWeights \<Rightarrow> agentResults \<Rightarrow> tally \<Rightarrow> agentType \<Rightarrow> tally" where
  "processAgent w rs a agentType =
     (let result = resultOf rs agentType in
      case ar_signal result of
        None \<Rightarrow> a
      | Some sg \<Rightarrow>
          if sg \<noteq> [] \<and> agentType \<noteq> Risk then
            let weight = weightOf w agentType;
                confidence = ddiv (num_or (ar_confidence result) 50) 100;
                weightedScore = dmul weight confidence;
                s = sigs a;
                s' = (if sg = ''BUY'' \<or> sg = ''APPROVE_TRADE''
                      then s\<lparr>BUY := dadd (BUY s) weightedScore\<rparr>
                      else if sg = ''SELL'' then s\<lparr>SELL := dadd (SELL s) weightedScore\<rparr>
                      else s\<lparr>HOLD := dadd (HOLD s) weightedScore\<rparr>)
            in a\<lparr>sigs := s',
                 totalConfidence :=
                   dadd (totalConfidence a) (num_or (ar_confidence result) 50),
                 validAgents := validAgents a + 1,
                 reasoningParts := reasoningParts a
                    @ [AgentLine agentType sg (ar_confidence result)]\<rparr>
          else a)"

text \<open>The risk modifier and the line it adds to the reasoning.\<close>

definition riskModifier :: "agentResult \<Rightarrow> real" where
  "riskModifier riskResult =
     (if ar_signal riskResult = Some ''AVOID_TRADE'' then fl 0.3
      else if ar_signal riskResult = Some ''CAUTIOUS_TRADE'' then fl 0.7
      else 1.0)"

definition riskLine :: "agentResult \<Rightarrow> reasoningPart" where
  "riskLine riskResult =
     (if ar_signal riskResult = Some ''AVOID_TRADE''
      then Line ''Risk: HIGH RISK - Trade discouraged''
      else if ar_signal riskResult = Some ''CAUTIOUS_TRADE''
      then Line ''Risk: MODERATE - Trade with caution''
      else Line ''Risk: LOW - Trade approved'')"

text \<open>The object \<open>aggregateSignals\<close> returns.\<close>

record decision =
  action :: string
  confidence :: real
  reasoning :: "reasoningPart list"
  signalStrength :: signals
  riskAdjustment :: real

text \<open>The loop over the keys, and the base confidence computed from what it counted.\<close>

definition tallyOf :: "agentWeights \<Rightarrow> agentResults \<Rightarrow> tally" where
  "tallyOf w rs = foldl (processAgent w rs) tally_init Object_keys"

definition baseConfidenceOf :: "tally \<Rightarrow> real" where
  "baseConfidenceOf a =
     (if validAgents a > 0 then ddiv (totalConfidence a) (real (validAgents a)) else 50)"

text \<open>The final action, from the three accumulated scores.\<close>

definition finalActionOf :: "signals \<Rightarrow> string" where
  "finalActionOf s =
     (let maxSignal = max (max (BUY s) (SELL s)) (HOLD s)
      in if maxSignal = BUY s \<and> BUY s > fl 0.4 then ''BUY''
         else if maxSignal = SELL s \<and> SELL s > fl 0.4 then ''SELL''
         else ''HOLD'')"

definition aggregateSignals :: "agentWeights \<Rightarrow> agentResults \<Rightarrow> decision" where
  "aggregateSignals w rs =
     (let a = tallyOf w rs;
          s = sigs a;
          riskResult = res_risk rs;
          rm = riskModifier riskResult;
          parts = reasoningParts a @ [riskLine riskResult];
          finalAction = finalActionOf s;
          baseConfidence = baseConfidenceOf a;
          adjustedConfidence = Math_round (dmul baseConfidence rm);
          finalConfidence = max 20 (min 95 adjustedConfidence)
      in \<lparr>action = finalAction, confidence = finalConfidence, reasoning = parts,
          signalStrength = \<lparr>BUY = Math_round (dmul (BUY s) 100),
                            SELL = Math_round (dmul (SELL s) 100),
                            HOLD = Math_round (dmul (HOLD s) 100)\<rparr>,
          riskAdjustment = Math_round (dmul (dsub 1 rm) 100)\<rparr>)"

text \<open>
  What the agents return when they fail: the catch blocks of
  \<open>RiskManagementAgent.analyze\<close> and \<open>TechnicalAnalysisAgent.analyze\<close>, and
  \<open>getFallbackAnalysis\<close> of the sentiment and of the research agent. Each has the
  signal HOLD.
\<close>

definition riskAgent_errorResult :: agentResult where
  "riskAgent_errorResult = \<lparr>ar_signal = Some ''HOLD'', ar_confidence = Some 0\<rparr>"

definition technicalAgent_errorResult :: agentResult where
  "technicalAgent_errorResult = \<lparr>ar_signal = Some ''HOLD'', ar_confidence = Some 0\<rparr>"

definition sentimentAgent_fallback :: agentResult where
  "sentimentAgent_fallback = \<lparr>ar_signal = Some ''HOLD'', ar_confidence = Some 30\<rparr>"

definition researchAgent_fallback :: agentResult where
  "researchAgent_fallback = \<lparr>ar_signal = Some ''HOLD'', ar_confidence = Some 30\<rparr>"

text \<open>An agent the loop counts: its signal is truthy.\<close>

definition reports :: "agentResult \<Rightarrow> bool" where
  "reports r = truthy (ar_signal r)"

section \<open>MarketSentimentAgent: the enhanced combination\<close>

text \<open>\<open>x || d\<close> for a number and for a string that may be undefined.\<close>

definition or_num :: "real \<Rightarrow> real \<Rightarrow> real" where
  "or_num x d = (if x = 0 then d else x)"

definition str_or :: "string option \<Rightarrow> string \<Rightarrow> string" where
  "str_or s d = (case s of None \<Rightarrow> d | Some v \<Rightarrow> if v = [] then d else v)"

text \<open>The arguments of \<open>enhancedCombineAnalysis\<close>, with the properties it reads.\<close>

record overallSentiment =
  os_signal :: "string option"
  os_confidence :: "real option"

record traditional =
  t_overallSentiment :: "overallSentiment option"
  t_intraDayRange :: real
  t_volumeRatio :: real

record aiAnalysis =
  ai_tradingSignal :: "string option"
  ai_confidence :: real

record microstructure =
  liquidityRisk :: string
  orderFlowBias :: string
  institutionalSentiment :: string
  depthQuality :: string

text \<open>The table \<open>signalScores\<close>; a key it does not hold reads as undefined.\<close>

definition signalScores :: "string \<Rightarrow> real option" where
  "signalScores k = (if k = ''BUY'' then Some 1 else if k = ''HOLD'' then Some 0
                     else if k = ''SELL'' then Some (- 1) else None)"

definition getHistoricalSignalScore :: "historicalResult \<Rightarrow> real" where
  "getHistoricalSignalScore h =
     (if dominantPattern h = ''BULLISH_PATTERN'' then 0.8
      else if dominantPattern h = ''BEARISH_PATTERN'' then - 0.8
      else 0)"

definition getMicrostructureSignalScore :: "microstructure \<Rightarrow> real" where
  "getMicrostructureSignalScore m =
     (let s0 = 0;
          s1 = (if orderFlowBias m = ''BULLISH'' then s0 + 0.6
                else if orderFlowBias m = ''BEARISH'' then s0 - 0.6 else s0);
          s2 = (if institutionalSentiment m = ''BULLISH'' then s1 + 0.4
                else if institutionalSentiment m = ''BEARISH'' then s1 - 0.4 else s1)
      in max (- 1) (min 1 s2))"

definition getMicrostructureConfidence :: "microstructure \<Rightarrow> real" where
  "getMicrostructureConfidence m =
     (let c0 = 50;
          c1 = (if liquidityRisk m = ''LOW'' then c0 + 15
                else if liquidityRisk m = ''HIGH'' then c0 - 15 else c0);
          c2 = (if depthQuality m = ''EXCELLENT'' then c1 + 10
                else if depthQuality m = ''POOR'' then c1 - 10 else c1)
      in max 20 (min 80 c2))"

text \<open>
  The signal and the confidence of the object \<open>enhancedCombineAnalysis\<close> returns; its
  other properties are texts and the expected move, which no statement below reads.
\<close>

record combined =
  cb_signal :: string
  cb_confidence :: real

text \<open>
  \<open>enhancedCombineAnalysis\<close>; \<open>currentHour\<close> is the hour the clock shows. The source
  divides by \<open>totalWeight\<close>: the model is the source's result where that sum is not 0.
\<close>

definition enhancedCombineAnalysis ::
  "traditional \<Rightarrow> aiAnalysis \<Rightarrow> historicalResult \<Rightarrow> microstructure \<Rightarrow> modelWeights \<Rightarrow> nat
     \<Rightarrow> combined" where
  "enhancedCombineAnalysis trad aia hist micro optimalWeights currentHour =
     (let aiWeight0 = ai optimalWeights;
          traditionalWeight0 = technical optimalWeights;
          historicalWeight0 = or_num (historical optimalWeights) 0.2;
          microWeight0 = 0.15;
          totalWeight = aiWeight0 + traditionalWeight0 + historicalWeight0 + microWeight0;
          aiWeight1 = aiWeight0 / totalWeight;
          traditionalWeight = traditionalWeight0 / totalWeight;
          historicalWeight1 = historicalWeight0 / totalWeight;
          microWeight1 = microWeight0 / totalWeight;
          isOpeningHour = (currentHour = 9);
          isClosingHour = (currentHour \<ge> 15);
          volatility = t_intraDayRange trad;
          historicalWeight = (if volatility > 2 then historicalWeight1 * 1.3 else historicalWeight1);
          aiWeight2 = (if volatility > 2 then aiWeight1 * 0.9 else aiWeight1);
          aiWeight = (if isOpeningHour \<or> isClosingHour then aiWeight2 * 1.2 else aiWeight2);
          microWeight = (if isOpeningHour \<or> isClosingHour then microWeight1 * 1.4 else microWeight1);
          cm0 = or_num (confidenceAdjustment hist) 1.0;
          cm1 = (if h_accuracy hist > 80 then cm0 * 1.1 else cm0);
          cm2 = (if h_accuracy hist < 50 then cm1 * 0.9 else cm1);
          cm3 = (if liquidityRisk micro = ''HIGH'' then cm2 * 0.8 else cm2);
          confidenceMultiplier = (if orderFlowBias micro \<noteq> ''NEUTRAL'' then cm3 * 1.1 else cm3);
          traditionalScore =
            num_or (signalScores (str_or (case t_overallSentiment trad of None \<Rightarrow> None
                                          | Some os \<Rightarrow> os_signal os) ''HOLD'')) 0;
          aiScore = num_or (case ai_tradingSignal aia of None \<Rightarrow> None
                            | Some k \<Rightarrow> signalScores k) 0;
          historicalScore = getHistoricalSignalScore hist;
          microScore = getMicrostructureSignalScore micro;
          combinedScore = traditionalScore * traditionalWeight + aiScore * aiWeight
                          + historicalScore * historicalWeight + microScore * microWeight;
          finalSignal = (if combinedScore > 0.25 then ''BUY''
                         else if combinedScore < - 0.25 then ''SELL'' else ''HOLD'');
          traditionalConfidence =
            num_or (case t_overallSentiment trad of None \<Rightarrow> None
                    | Some os \<Rightarrow> os_confidence os) 50;
          rawConfidence = Math_round
            (traditionalConfidence * traditionalWeight + ai_confidence aia * aiWeight
             + (if h_confidence hist = ''HIGH'' then 80
                else if h_confidence hist = ''MEDIUM'' then 60 else 40) * historicalWeight
             + getMicrostructureConfidence micro * microWeight);
          finalConfidence = min 95 (max 20 (rawConfidence * confidenceMultiplier))
      in \<lparr>cb_signal = finalSignal, cb_confidence = finalConfidence\<rparr>)"

section \<open>Notions and sample inputs used in the statements\<close>

text \<open>A confidence lies in a calibration range (both bounds included).\<close>

definition inRange :: "real \<Rightarrow> real \<Rightarrow> prediction \<Rightarrow> bool" where
  "inRange lo hi p = (lo \<le> p_confidence p \<and> p_confidence p \<le> hi)"

text \<open>
  The score the loop of \<open>aggregateSignals\<close> accumulates for an action when all three
  voting agents report that action: the double sum of each weight times the agent's
  confidence over 100.
\<close>

definition weightedVote :: "agentWeights \<Rightarrow> agentResults \<Rightarrow> real" where
  "weightedVote w rs =
     dadd (dadd (dadd 0
       (dmul (w_technical w) (ddiv (num_or (ar_confidence (res_technical rs)) 50) 100)))
       (dmul (w_sentiment w) (ddiv (num_or (ar_confidence (res_sentiment rs)) 50) 100)))
       (dmul (w_research w) (ddiv (num_or (ar_confidence (res_research rs)) 50) 100))"

text \<open>
  The confidences the loop adds up: those of the voting agents with a truthy signal,
  a missing confidence and the confidence 0 read as 50; and their double average, 50
  when there is none.
\<close>

definition countedConfidences :: "agentResults \<Rightarrow> real list" where
  "countedConfidences rs =
     map (\<lambda>r. num_or (ar_confidence r) 50)
       (filter reports [res_technical rs, res_sentiment rs, res_research rs])"

definition averageConfidence :: "agentResults \<Rightarrow> real" where
  "averageConfidence rs =
     (if countedConfidences rs = [] then 50
      else ddiv (foldl dadd 0 (countedConfidences rs)) (real (length (countedConfidences rs))))"

text \<open>An agent result that votes BUY, or SELL, in the loop.\<close>

definition votesBuy :: "agentResult \<Rightarrow> bool" where
  "votesBuy r = (ar_signal r = Some ''BUY'' \<or> ar_signal r = Some ''APPROVE_TRADE'')"

definition votesSell :: "agentResult \<Rightarrow> bool" where
  "votesSell r = (ar_signal r = Some ''SELL'')"

definition buyVoters :: "agentResults \<Rightarrow> nat" where
  "buyVoters rs = length (filter votesBuy [res_technical rs, res_sentiment rs, res_research rs])"

definition sellVoters :: "agentResults \<Rightarrow> nat" where
  "sellVoters rs =
     length (filter votesSell [res_technical rs, res_sentiment rs, res_research rs])"

text \<open>Sample market conditions and a sample tracked prediction.\<close>

definition sample_conditions :: marketConditions where
  "sample_conditions =
     \<lparr>mc_price = 100, mc_volatility = 1, mc_volume = 0, mc_time = 10, mc_changePercent = 0\<rparr>"

definition sample_agentData :: agentData where
  "sample_agentData = \<lparr>aiWeight = Some 0.6, traditionalWeight = Some 0.4\<rparr>"

definition sample_prediction :: prediction where
  "sample_prediction =
     \<lparr>p_id = ''p1'', p_signal = ''BUY'', p_confidence = 85, targetPrice = 100,
      timestamp = 0, actualOutcome = None, accuracy = None, validationTime = None,
      actualPrice = None, p_agentData = Some sample_agentData,
      p_marketConditions = sample_conditions\<rparr>"

text \<open>A tracker whose buffer holds one prediction, to show an eviction in two steps.\<close>

definition small_tracker :: tracker where
  "small_tracker = PerformanceTracker_new\<lparr>maxPredictions := 1\<rparr>"

definition evicting_run :: tracker where
  "evicting_run =
     run small_tracker
       [Track ''p1'' ''BUY'' 85 100 0 None sample_conditions,
        Track ''p2'' ''SELL'' 60 100 5 None sample_conditions]"

text \<open>Sample results of the four agents.\<close>

definition sample_unanimous :: agentResults where
  "sample_unanimous =
     \<lparr>res_technical = \<lparr>ar_signal = Some ''BUY'', ar_confidence = Some 80\<rparr>,
      res_sentiment = \<lparr>ar_signal = Some ''BUY'', ar_confidence = Some 70\<rparr>,
      res_research = \<lparr>ar_signal = Some ''BUY'', ar_confidence = Some 60\<rparr>,
      res_risk = riskAgent_errorResult\<rparr>"

definition sample_hesitant :: agentResults where
  "sample_hesitant =
     \<lparr>res_technical = \<lparr>ar_signal = Some ''BUY'', ar_confidence = Some 40\<rparr>,
      res_sentiment = \<lparr>ar_signal = Some ''BUY'', ar_confidence = Some 40\<rparr>,
      res_research = \<lparr>ar_signal = Some ''BUY'', ar_confidence = Some 40\<rparr>,
      res_risk = \<lparr>ar_signal = Some ''APPROVE_TRADE'', ar_confidence = Some 80\<rparr>\<rparr>"

text \<open>One agent reports BUY, the sentiment and the research agent have failed.\<close>

definition sample_degraded :: agentResults where
  "sample_degraded =
     \<lparr>res_technical = \<lparr>ar_signal = Some ''BUY'', ar_confidence = Some 90\<rparr>,
      res_sentiment = sentimentAgent_fallback,
      res_research = researchAgent_fallback,
      res_risk = \<lparr>ar_signal = Some ''APPROVE_TRADE'', ar_confidence = Some 80\<rparr>\<rparr>"

text \<open>The same with BUY at 85 and a cautious risk agent.\<close>

definition sample_degraded_cautious :: agentResults where
  "sample_degraded_cautious =
     \<lparr>res_technical = \<lparr>ar_signal = Some ''BUY'', ar_confidence = Some 85\<rparr>,
      res_sentiment = sentimentAgent_fallback,
      res_research = researchAgent_fallback,
      res_risk = \<lparr>ar_signal = Some ''CAUTIOUS_TRADE'', ar_confidence = Some 60\<rparr>\<rparr>"

text \<open>Three agents report BUY at 85 and the risk agent is cautious.\<close>

definition sample_cautious :: agentResults where
  "sample_cautious =
     \<lparr>res_technical = \<lparr>ar_signal = Some ''BUY'', ar_confidence = Some 85\<rparr>,
      res_sentiment = \<lparr>ar_signal = Some ''BUY'', ar_confidence = Some 85\<rparr>,
      res_research = \<lparr>ar_signal = Some ''BUY'', ar_confidence = Some 85\<rparr>,
      res_risk = \<lparr>ar_signal = Some ''CAUTIOUS_TRADE'', ar_confidence = Some 60\<rparr>\<rparr>"

text \<open>Sample arguments of the enhanced combination.\<close>

definition sample_traditional :: traditional where
  "sample_traditional =
     \<lparr>t_overallSentiment = None, t_intraDayRange = 1, t_volumeRatio = 1\<rparr>"

definition sample_ai :: aiAnalysis where
  "sample_ai = \<lparr>ai_tradingSignal = Some ''BUY'', ai_confidence = 65\<rparr>"

definition sample_historical :: historicalResult where
  "sample_historical =
     \<lparr>similarCount = 20, avgOutcome = 0, h_accuracy = 45, h_confidence = ''LOW'',
      confidenceAdjustment = 0.8, dominantPattern = ''NEUTRAL_PATTERN'',
      h_riskAdjustment = 1\<rparr>"

definition sample_microstructure :: microstructure where
  "sample_microstructure =
     \<lparr>liquidityRisk = ''MEDIUM'', orderFlowBias = ''NEUTRAL'',
      institutionalSentiment = ''NEUTRAL'', depthQuality = ''MODERATE''\<rparr>"

text \<open>A sample set of one historical point, and conditions that are not similar to it.\<close>

definition sample_history :: "dataPoint list" where
  "sample_history =
     [\<lparr>dp_volatility = 1.5, dp_volume = 50000000, dp_momentum = 0, dp_hour = 10,
       dp_signal = ''BUY'', dp_actualOutcome = 0.2\<rparr>]"

definition sample_current :: currentData where
  "sample_current = \<lparr>c_volatility = 3.2, c_momentum = 0, c_volumeRatio = 1, c_hour = 10\<rparr>"

section \<open>Properties of the accuracy score\<close>

lemma baseAccuracy_range: "0 \<le> baseAccuracy s m \<and> baseAccuracy s m \<le> 100"
  by (auto simp: baseAccuracy_def)

lemma calculateAccuracy_mean:
  "calculateAccuracy s m c =
     (baseAccuracy s m + calculateConfidenceAccuracy c (baseAccuracy s m)) / 2"
  using baseAccuracy_range [of s m]
  by (auto simp: calculateAccuracy_def Let_def calculateConfidenceAccuracy_def)

text \<open>
  Claim C5, as stated: the score of a BUY or SELL prediction is
  \<open>min(100, 70 + |actualMove| * 10)\<close> when the direction matches, and a BUY tracked at
  100 that resolves at 101.5 scores 85. The code does otherwise: at confidence 70 that
  BUY scores 82.5.
\<close>

theorem calculateAccuracy_directional_counterexample:
  "calculateAccuracy ''BUY'' (actualMoveOf 101.5 100) 70 = 82.5 \<and>
   calculateAccuracy ''BUY'' (actualMoveOf 101.5 100) 70
     \<noteq> min 100 (70 + \<bar>actualMoveOf 101.5 100\<bar> * 10)"
  by (simp add: calculateAccuracy_def baseAccuracy_def calculateConfidenceAccuracy_def
        actualMoveOf_def Let_def)

text \<open>
  Claim C5, amended: for a BUY or SELL prediction the formulas of the claim give the
  base accuracy (\<open>min(100, 70 + |actualMove| * 10)\<close> when the direction matches,
  \<open>max(0, 30 - |actualMove| * 5)\<close> when it does not), and the score returned is the mean
  of the base accuracy and the calibration score of the confidence against it. In the
  scenario (BUY at 100 resolving at 101.5) the base accuracy is 85 and the score is
  never 85, whatever the confidence.
\<close>

theorem calculateAccuracy_directional:
  assumes "signal = ''BUY'' \<or> signal = ''SELL''"
  shows "baseAccuracy signal m =
           (if (signal = ''BUY'' \<and> m > 0) \<or> (signal = ''SELL'' \<and> m < 0)
            then min 100 (70 + \<bar>m\<bar> * 10) else max 0 (30 - \<bar>m\<bar> * 5))
         \<and> calculateAccuracy signal m c =
           (baseAccuracy signal m + calculateConfidenceAccuracy c (baseAccuracy signal m)) / 2
         \<and> baseAccuracy ''BUY'' (actualMoveOf 101.5 100) = 85
         \<and> calculateAccuracy ''BUY'' (actualMoveOf 101.5 100) c \<noteq> 85"
proof -
  have scen: "baseAccuracy ''BUY'' (actualMoveOf 101.5 100) = 85"
    by (simp add: baseAccuracy_def actualMoveOf_def)
  have "calculateConfidenceAccuracy c 85 \<noteq> 85"
    by (simp add: calculateConfidenceAccuracy_def Let_def)
  then have ne: "calculateAccuracy ''BUY'' (actualMoveOf 101.5 100) c \<noteq> 85"
    using scen by (simp add: calculateAccuracy_mean)
  have base: "baseAccuracy signal m =
           (if (signal = ''BUY'' \<and> m > 0) \<or> (signal = ''SELL'' \<and> m < 0)
            then min 100 (70 + \<bar>m\<bar> * 10) else max 0 (30 - \<bar>m\<bar> * 5))"
    using assms by (auto simp: baseAccuracy_def)
  show ?thesis using base scen ne calculateAccuracy_mean [of signal m c] by blast
qed

theorem calculateAccuracy_directional_witness:
  "baseAccuracy ''SELL'' (- 2) = 90 \<and> calculateAccuracy ''SELL'' (- 2) 85 = 95
   \<and> baseAccuracy ''SELL'' 2 = 20 \<and> calculateAccuracy ''SELL'' 2 85 = 30"
  using calculateAccuracy_directional [of "''SELL''" "- 2" 85]
    calculateAccuracy_directional [of "''SELL''" 2 85]
  by (simp add: baseAccuracy_def calculateConfidenceAccuracy_def Let_def)

text \<open>
  Claim C6, as stated: a HOLD prediction scores \<open>max(0, 100 - |actualMove| * 10)\<close>, about
  99.5 for a move of 0.05 percent. The code does otherwise: at confidence 80 that HOLD
  scores 90.
\<close>

theorem calculateAccuracy_hold_counterexample:
  "calculateAccuracy ''HOLD'' 0.05 80 = 90 \<and>
   calculateAccuracy ''HOLD'' 0.05 80 \<noteq> max 0 (100 - \<bar>0.05\<bar> * 10)"
  by (simp add: calculateAccuracy_def baseAccuracy_def calculateConfidenceAccuracy_def Let_def)

text \<open>
  Claim C6, amended: the base accuracy of a HOLD prediction is 80 for a move below 0.2
  percent, 60 for a move below 0.5 percent, and \<open>max(0, 30 - |actualMove| * 5)\<close> beyond;
  the score returned is the mean of the base accuracy and the calibration score of the
  confidence, so it never exceeds 90; a move of 0.05 percent has base accuracy 80.
\<close>

theorem calculateAccuracy_hold:
  "baseAccuracy ''HOLD'' m =
      (if \<bar>m\<bar> < 0.2 then 80 else if \<bar>m\<bar> < 0.5 then 60 else max 0 (30 - \<bar>m\<bar> * 5))
   \<and> calculateAccuracy ''HOLD'' m c =
      (baseAccuracy ''HOLD'' m + calculateConfidenceAccuracy c (baseAccuracy ''HOLD'' m)) / 2
   \<and> calculateAccuracy ''HOLD'' m c \<le> 90
   \<and> baseAccuracy ''HOLD'' 0.05 = 80"
proof -
  have b: "baseAccuracy ''HOLD'' m =
      (if \<bar>m\<bar> < 0.2 then 80 else if \<bar>m\<bar> < 0.5 then 60 else max 0 (30 - \<bar>m\<bar> * 5))"
    by (simp add: baseAccuracy_def)
  have le: "baseAccuracy ''HOLD'' m \<le> 80"
    unfolding b by auto
  have "calculateConfidenceAccuracy c (baseAccuracy ''HOLD'' m) \<le> 100"
    by (simp add: calculateConfidenceAccuracy_def Let_def)
  with le have "calculateAccuracy ''HOLD'' m c \<le> 90"
    by (simp add: calculateAccuracy_mean)
  moreover have "baseAccuracy ''HOLD'' 0.05 = 80"
    by (simp add: baseAccuracy_def)
  ultimately show ?thesis using b calculateAccuracy_mean [of "''HOLD''" m c] by blast
qed

theorem calculateAccuracy_hold_witness:
  "baseAccuracy ''HOLD'' 0.05 = 80 \<and> calculateAccuracy ''HOLD'' 0.05 80 = 90
   \<and> calculateAccuracy ''HOLD'' 0.3 80 = 60 \<and> calculateAccuracy ''HOLD'' 1 80 = 32.5"
  using calculateAccuracy_hold [of "0.05" 80] calculateAccuracy_hold [of "0.3" 80]
    calculateAccuracy_hold [of 1 80]
  by (simp add: baseAccuracy_def calculateConfidenceAccuracy_def Let_def)

section \<open>Properties of the tracker\<close>

lemma find_update_first:
  "find P xs = Some x \<Longrightarrow> P (f x) \<Longrightarrow> find P (update_first P f xs) = Some (f x)"
  by (induction xs) (auto split: if_splits)

lemma find_Some_holds: "find P xs = Some x \<Longrightarrow> P x"
  by (induction xs) (auto split: if_splits)

lemma find_None_map: "find (\<lambda>p. f p = k) xs = None \<longleftrightarrow> k \<notin> set (map f xs)"
  by (induction xs) auto

lemma adjustModelWeights_cases:
  assumes "adjustModelWeights t pr = Some t'"
  shows "t' = t
     \<or> t' = t\<lparr>weights := (weights t)\<lparr>ai := min 0.8 (ai (weights t) + 0.02),
                       technical := max 0.2 (technical (weights t) - 0.02)\<rparr>\<rparr>
     \<or> t' = t\<lparr>weights := (weights t)\<lparr>ai := max 0.3 (ai (weights t) - 0.03),
                       technical := min 0.7 (technical (weights t) + 0.03)\<rparr>\<rparr>"
proof (cases "p_agentData pr")
  case None
  with assms show ?thesis
    by (simp add: adjustModelWeights_def Let_def split: if_splits)
next
  case (Some ad)
  with assms show ?thesis
    by (simp add: adjustModelWeights_def Let_def split: if_splits)
qed

lemma adjustModelWeights_frame:
  assumes "adjustModelWeights t pr = Some t'"
  shows "predictions t' = predictions t \<and> results t' = results t
         \<and> maxPredictions t' = maxPredictions t"
  using adjustModelWeights_cases [OF assms] by auto

lemma adjustModelWeights_bounds:
  assumes "adjustModelWeights t pr = Some t'"
    and "0.3 \<le> ai (weights t)" "ai (weights t) \<le> 0.8"
    and "0.2 \<le> technical (weights t)" "technical (weights t) \<le> 0.7"
  shows "0.3 \<le> ai (weights t') \<and> ai (weights t') \<le> 0.8 \<and>
         0.2 \<le> technical (weights t') \<and> technical (weights t') \<le> 0.7 \<and>
         historical (weights t') = historical (weights t)"
proof -
  consider "t' = t"
    | "t' = t\<lparr>weights := (weights t)\<lparr>ai := min 0.8 (ai (weights t) + 0.02),
                       technical := max 0.2 (technical (weights t) - 0.02)\<rparr>\<rparr>"
    | "t' = t\<lparr>weights := (weights t)\<lparr>ai := max 0.3 (ai (weights t) - 0.03),
                       technical := min 0.7 (technical (weights t) + 0.03)\<rparr>\<rparr>"
    using adjustModelWeights_cases [OF assms(1)] by blast
  then show ?thesis
  proof cases
    case 1 with assms show ?thesis by simp
  next
    case 2 with assms(2-5) show ?thesis by (simp add: min_def max_def)
  next
    case 3 with assms(2-5) show ?thesis by (simp add: min_def max_def)
  qed
qed

text \<open>The validation of a prediction that is in the buffer and not yet resolved.\<close>

lemma validatePrediction_fresh:
  assumes "find (\<lambda>p. p_id p = pid) (predictions t) = Some pr" "actualOutcome pr = None"
    and "mv = actualMoveOf price (targetPrice pr)"
    and "acc = calculateAccuracy (p_signal pr) mv (p_confidence pr)"
    and "resolve = (\<lambda>p::prediction. p\<lparr>actualOutcome := Some mv, accuracy := Some acc,
                                       validationTime := Some n, actualPrice := Some price\<rparr>)"
    and "t1 = t\<lparr>predictions := update_first (\<lambda>p. p_id p = pid) resolve (predictions t),
                results := results t @
                   [\<lparr>r_id = p_id pr, r_signal = p_signal pr,
                     r_predicted = targetPrice pr, r_actual = price,
                     r_accuracy = acc, r_confidence = p_confidence pr,
                     r_timestamp = timestamp pr, r_validationTime = n\<rparr>]\<rparr>"
  shows "validatePrediction t pid (Some price) n =
           (case adjustModelWeights t1 (resolve pr) of
              None \<Rightarrow> t1
            | Some t2 \<Rightarrow>
                if length (results t2) > maxPredictions t2
                then t2\<lparr>results := slice_last (maxPredictions t2) (results t2)\<rparr>
                else t2)"
  unfolding validatePrediction_def assms(3-6) Let_def
  using assms(1,2) by simp

lemma validatePrediction_absent:
  "find (\<lambda>p. p_id p = pid) (predictions t) = None \<Longrightarrow> validatePrediction t pid f n = t"
  by (simp add: validatePrediction_def)

lemma validatePrediction_resolved:
  "find (\<lambda>p. p_id p = pid) (predictions t) = Some pr \<Longrightarrow> actualOutcome pr \<noteq> None
     \<Longrightarrow> validatePrediction t pid f n = t"
  by (auto simp add: validatePrediction_def)

lemma validatePrediction_records:
  assumes "find (\<lambda>p. p_id p = pid) (predictions t) = Some pr" "actualOutcome pr = None"
  shows "\<exists>q. find (\<lambda>p. p_id p = pid) (predictions (validatePrediction t pid (Some price) n))
               = Some q \<and> actualOutcome q \<noteq> None"
proof -
  define mv where "mv = actualMoveOf price (targetPrice pr)"
  define acc where "acc = calculateAccuracy (p_signal pr) mv (p_confidence pr)"
  define resolve where
    "resolve = (\<lambda>p::prediction. p\<lparr>actualOutcome := Some mv, accuracy := Some acc,
                                  validationTime := Some n, actualPrice := Some price\<rparr>)"
  define t1 where
    "t1 = t\<lparr>predictions := update_first (\<lambda>p. p_id p = pid) resolve (predictions t),
            results := results t @
               [\<lparr>r_id = p_id pr, r_signal = p_signal pr,
                 r_predicted = targetPrice pr, r_actual = price,
                 r_accuracy = acc, r_confidence = p_confidence pr,
                 r_timestamp = timestamp pr, r_validationTime = n\<rparr>]\<rparr>"
  note vp = validatePrediction_fresh [OF assms mv_def acc_def resolve_def t1_def]
  have "p_id pr = pid" using find_Some_holds [OF assms(1)] .
  then have "p_id (resolve pr) = pid" by (simp add: resolve_def)
  then have fu: "find (\<lambda>p. p_id p = pid) (predictions t1) = Some (resolve pr)"
    using find_update_first [OF assms(1), of resolve] by (simp add: t1_def)
  have "predictions (validatePrediction t pid (Some price) n) = predictions t1"
  proof (cases "adjustModelWeights t1 (resolve pr)")
    case None
    then show ?thesis using vp by simp
  next
    case (Some t2)
    then show ?thesis using vp adjustModelWeights_frame [OF Some] by simp
  qed
  moreover have "actualOutcome (resolve pr) \<noteq> None" by (simp add: resolve_def)
  ultimately show ?thesis using fu by simp
qed

lemma validatePrediction_idem:
  "validatePrediction (validatePrediction t pid (Some price) n) pid f' n'
     = validatePrediction t pid (Some price) n"
proof (cases "find (\<lambda>p. p_id p = pid) (predictions t)")
  case None
  then show ?thesis by (simp add: validatePrediction_absent)
next
  case found: (Some pr)
  show ?thesis
  proof (cases "actualOutcome pr")
    case None
    from validatePrediction_records [OF found None] obtain q where
      "find (\<lambda>p. p_id p = pid) (predictions (validatePrediction t pid (Some price) n)) = Some q"
      "actualOutcome q \<noteq> None"
      by blast
    then show ?thesis by (rule validatePrediction_resolved)
  next
    case (Some a)
    with found have "\<And>f n. validatePrediction t pid f n = t"
      by (simp add: validatePrediction_resolved)
    then show ?thesis by simp
  qed
qed

lemma trackPrediction_evicts:
  assumes "0 < maxPredictions t" "length (predictions t) = maxPredictions t"
  shows "predictions (trackPrediction t i s c tp ts ad mc) =
           tl (predictions t) @
             [\<lparr>p_id = i, p_signal = s, p_confidence = c, targetPrice = tp, timestamp = ts,
               actualOutcome = None, accuracy = None, validationTime = None,
               actualPrice = None, p_agentData = ad, p_marketConditions = mc\<rparr>]"
proof -
  from assms obtain x xs where "predictions t = x # xs" by (cases "predictions t") auto
  with assms show ?thesis
    by (simp add: trackPrediction_def slice_last_def Let_def)
qed

lemma validatePrediction_weights:
  "weights (validatePrediction t pid f n) = weights t
   \<or> (\<exists>t1 q t2. weights t1 = weights t \<and> adjustModelWeights t1 q = Some t2
          \<and> weights (validatePrediction t pid f n) = weights t2)"
proof (cases "find (\<lambda>p. p_id p = pid) (predictions t)")
  case None
  then show ?thesis by (simp add: validatePrediction_def)
next
  case found: (Some pr)
  show ?thesis
  proof (cases "actualOutcome pr \<noteq> None \<or> f = None")
    case True
    then show ?thesis using found by (auto simp add: validatePrediction_def)
  next
    case False
    then obtain price where f: "f = Some price" and un: "actualOutcome pr = None" by auto
    define mv where "mv = actualMoveOf price (targetPrice pr)"
    define acc where "acc = calculateAccuracy (p_signal pr) mv (p_confidence pr)"
    define resolve where
      "resolve = (\<lambda>p::prediction. p\<lparr>actualOutcome := Some mv, accuracy := Some acc,
                                    validationTime := Some n, actualPrice := Some price\<rparr>)"
    define t1 where
      "t1 = t\<lparr>predictions := update_first (\<lambda>p. p_id p = pid) resolve (predictions t),
              results := results t @
                 [\<lparr>r_id = p_id pr, r_signal = p_signal pr,
                   r_predicted = targetPrice pr, r_actual = price,
                   r_accuracy = acc, r_confidence = p_confidence pr,
                   r_timestamp = timestamp pr, r_validationTime = n\<rparr>]\<rparr>"
    note vp = validatePrediction_fresh [OF found un mv_def acc_def resolve_def t1_def]
    have w1: "weights t1 = weights t" by (simp add: t1_def)
    show ?thesis
    proof (cases "adjustModelWeights t1 (resolve pr)")
      case None
      then show ?thesis using vp w1 f by simp
    next
      case (Some t2)
      then have "weights (validatePrediction t pid f n) = weights t2" using vp f by simp
      with Some w1 show ?thesis by blast
    qed
  qed
qed

lemma validatePrediction_keeps_bounds:
  assumes "0.3 \<le> ai (weights t) \<and> ai (weights t) \<le> 0.8 \<and>
           0.2 \<le> technical (weights t) \<and> technical (weights t) \<le> 0.7 \<and>
           historical (weights t) = 0"
  shows "0.3 \<le> ai (weights (validatePrediction t pid f n)) \<and>
         ai (weights (validatePrediction t pid f n)) \<le> 0.8 \<and>
         0.2 \<le> technical (weights (validatePrediction t pid f n)) \<and>
         technical (weights (validatePrediction t pid f n)) \<le> 0.7 \<and>
         historical (weights (validatePrediction t pid f n)) = 0"
proof -
  from validatePrediction_weights [of t pid f n]
  consider "weights (validatePrediction t pid f n) = weights t"
    | t1 q t2 where "weights t1 = weights t" "adjustModelWeights t1 q = Some t2"
          "weights (validatePrediction t pid f n) = weights t2"
    by blast
  then show ?thesis
  proof cases
    case 1
    with assms show ?thesis by simp
  next
    case 2
    from adjustModelWeights_bounds [OF 2(2)] assms 2(1,3)
    show ?thesis by simp
  qed
qed

lemma step_keeps_bounds:
  assumes "0.3 \<le> ai (weights t) \<and> ai (weights t) \<le> 0.8 \<and>
           0.2 \<le> technical (weights t) \<and> technical (weights t) \<le> 0.7 \<and>
           historical (weights t) = 0"
  shows "0.3 \<le> ai (weights (step t ev)) \<and> ai (weights (step t ev)) \<le> 0.8 \<and>
         0.2 \<le> technical (weights (step t ev)) \<and> technical (weights (step t ev)) \<le> 0.7 \<and>
         historical (weights (step t ev)) = 0"
proof (cases ev)
  case (Track i s c tp ts ad mc)
  then show ?thesis using assms by (simp add: trackPrediction_def Let_def)
next
  case (Validate pid f n)
  then show ?thesis using validatePrediction_keeps_bounds [OF assms] by simp
qed

lemma run_keeps_bounds:
  "0.3 \<le> ai (weights t) \<and> ai (weights t) \<le> 0.8 \<and>
   0.2 \<le> technical (weights t) \<and> technical (weights t) \<le> 0.7 \<and> historical (weights t) = 0
   \<Longrightarrow> 0.3 \<le> ai (weights (run t evs)) \<and> ai (weights (run t evs)) \<le> 0.8 \<and>
       0.2 \<le> technical (weights (run t evs)) \<and> technical (weights (run t evs)) \<le> 0.7 \<and>
       historical (weights (run t evs)) = 0"
proof (induction evs arbitrary: t)
  case Nil
  then show ?case by (simp add: run_def)
next
  case (Cons ev evs)
  have "run t (ev # evs) = run (step t ev) evs" by (simp add: run_def)
  then show ?case using Cons.IH [OF step_keeps_bounds [OF Cons.prems]] by simp
qed

lemma evicting_run_ids: "map p_id (predictions evicting_run) = [''p2'']"
  by (simp add: evicting_run_def small_tracker_def run_def trackPrediction_def
        PerformanceTracker_new_def Let_def slice_last_def)

lemma sample_poor_run:
  "weights (run PerformanceTracker_new
      [Track ''p1'' ''BUY'' 85 100 0 (Some sample_agentData) sample_conditions,
       Validate ''p1'' (Some 99) 900000]) = \<lparr>ai = 0.57, technical = 0.43, historical = 0\<rparr>"
proof -
  let ?t0 = "PerformanceTracker_new\<lparr>predictions := [sample_prediction]\<rparr>"
  have s1: "trackPrediction PerformanceTracker_new ''p1'' ''BUY'' 85 100 0
              (Some sample_agentData) sample_conditions = ?t0"
    by (simp add: trackPrediction_def PerformanceTracker_new_def sample_prediction_def Let_def)
  let ?resolve = "\<lambda>p::prediction. p\<lparr>actualOutcome := Some (- 1), accuracy := Some 32.5,
                     validationTime := Some 900000, actualPrice := Some 99\<rparr>"
  let ?t1 = "?t0\<lparr>predictions := [?resolve sample_prediction],
                 results := [\<lparr>r_id = ''p1'', r_signal = ''BUY'', r_predicted = 100, r_actual = 99,
                              r_accuracy = 32.5, r_confidence = 85, r_timestamp = 0,
                              r_validationTime = 900000\<rparr>]\<rparr>"
  let ?t2 = "?t1\<lparr>weights := \<lparr>ai = 0.57, technical = 0.43, historical = 0\<rparr>\<rparr>"
  have adj: "adjustModelWeights ?t1 (?resolve sample_prediction) = Some ?t2"
    unfolding adjustModelWeights_def Let_def
    by (simp add: nullnum_def gt_undef_def sample_prediction_def sample_agentData_def
          PerformanceTracker_new_def)
  have "validatePrediction ?t0 ''p1'' (Some 99) 900000 =
          (case adjustModelWeights ?t1 (?resolve sample_prediction) of
              None \<Rightarrow> ?t1
            | Some t2 \<Rightarrow>
                if length (results t2) > maxPredictions t2
                then t2\<lparr>results := slice_last (maxPredictions t2) (results t2)\<rparr>
                else t2)"
  proof (rule validatePrediction_fresh [where pr = sample_prediction and mv = "- 1" and acc = "32.5"])
    show "find (\<lambda>p. p_id p = ''p1'') (predictions ?t0) = Some sample_prediction"
      by (simp add: sample_prediction_def)
    show "actualOutcome sample_prediction = None" by (simp add: sample_prediction_def)
    show "- 1 = actualMoveOf 99 (targetPrice sample_prediction)"
      by (simp add: sample_prediction_def actualMoveOf_def)
    show "32.5 = calculateAccuracy (p_signal sample_prediction) (- 1) (p_confidence sample_prediction)"
      by (simp add: sample_prediction_def calculateAccuracy_def baseAccuracy_def
            calculateConfidenceAccuracy_def Let_def)
    show "?resolve = ?resolve" by (rule refl)
    show "?t1 = ?t0\<lparr>predictions := update_first (\<lambda>p. p_id p = ''p1'') ?resolve (predictions ?t0),
                results := results ?t0 @
                   [\<lparr>r_id = p_id sample_prediction, r_signal = p_signal sample_prediction,
                     r_predicted = targetPrice sample_prediction, r_actual = 99,
                     r_accuracy = 32.5, r_confidence = p_confidence sample_prediction,
                     r_timestamp = timestamp sample_prediction, r_validationTime = 900000\<rparr>]\<rparr>"
      by (simp add: sample_prediction_def PerformanceTracker_new_def)
  qed
  also have "\<dots> = ?t2" unfolding adj by (simp add: PerformanceTracker_new_def)
  finally have "validatePrediction ?t0 ''p1'' (Some 99) 900000 = ?t2" .
  then show ?thesis using s1 by (simp add: run_def)
qed

text \<open>
  Claim C2: every tracked prediction is resolved at most once. A validation for an id
  that is no longer in the rolling buffer changes nothing; a validation for a prediction
  whose outcome is already recorded changes nothing, so the weights are not adjusted a
  second time; hence validating the same id again after a validation that fetched a
  price leaves the state as that validation left it. When the buffer is full, tracking one
  more prediction evicts the oldest one.
\<close>

theorem validatePrediction_resolves_once:
  "(pid \<notin> set (map p_id (predictions t)) \<longrightarrow> validatePrediction t pid fetched now = t)
   \<and> (\<forall>pr. find (\<lambda>p. p_id p = pid) (predictions t) = Some pr \<and> actualOutcome pr \<noteq> None
          \<longrightarrow> validatePrediction t pid fetched now = t)
   \<and> validatePrediction (validatePrediction t pid (Some price) now) pid fetched' now'
        = validatePrediction t pid (Some price) now
   \<and> (0 < maxPredictions t \<and> length (predictions t) = maxPredictions t
        \<longrightarrow> map p_id (predictions (trackPrediction t i s c tp ts ad mc))
              = map p_id (tl (predictions t)) @ [i])"
proof -
  have a: "pid \<notin> set (map p_id (predictions t)) \<longrightarrow> validatePrediction t pid fetched now = t"
  proof
    assume "pid \<notin> set (map p_id (predictions t))"
    then have "find (\<lambda>p. p_id p = pid) (predictions t) = None"
      by (simp add: find_None_map)
    then show "validatePrediction t pid fetched now = t"
      by (rule validatePrediction_absent)
  qed
  have b: "\<forall>pr. find (\<lambda>p. p_id p = pid) (predictions t) = Some pr \<and> actualOutcome pr \<noteq> None
          \<longrightarrow> validatePrediction t pid fetched now = t"
    using validatePrediction_resolved by blast
  have d: "0 < maxPredictions t \<and> length (predictions t) = maxPredictions t
        \<longrightarrow> map p_id (predictions (trackPrediction t i s c tp ts ad mc))
              = map p_id (tl (predictions t)) @ [i]"
    by (simp add: trackPrediction_evicts)
  show ?thesis using a b d validatePrediction_idem [of t pid price now fetched' now'] by blast
qed

theorem validatePrediction_resolves_once_witness:
  "map p_id (predictions evicting_run) = [''p2'']
   \<and> validatePrediction evicting_run ''p1'' (Some 99) 900000 = evicting_run
   \<and> validatePrediction (validatePrediction evicting_run ''p2'' (Some 99) 900005) ''p2'' (Some 98) 900010
        = validatePrediction evicting_run ''p2'' (Some 99) 900005"
  using validatePrediction_resolves_once [where pid = "''p1''" and t = evicting_run
      and fetched = "Some 99" and now = 900000]
    validatePrediction_resolves_once [where pid = "''p2''" and t = evicting_run
      and price = 99 and now = 900005 and fetched' = "Some 98" and now' = 900010]
  by (simp add: evicting_run_ids)

text \<open>
  Claim C3: starting from the default weights, after every sequence of tracked
  predictions and validations each weight is within the bounds the update writes: the
  AI weight stays in [0.3, 0.8] and the technical weight in [0.2, 0.7] (the historical
  weight stays 0); and one weight adjustment from weights within these bounds yields
  weights within them, so neither the excellent-outcome update exceeds the maximum nor
  the poor-outcome update falls below the minimum.
\<close>

theorem weights_stay_within_bounds:
  "0.3 \<le> ai (weights (run PerformanceTracker_new evs)) \<and>
   ai (weights (run PerformanceTracker_new evs)) \<le> 0.8 \<and>
   0.2 \<le> technical (weights (run PerformanceTracker_new evs)) \<and>
   technical (weights (run PerformanceTracker_new evs)) \<le> 0.7 \<and>
   historical (weights (run PerformanceTracker_new evs)) = 0 \<and>
   (\<forall>t pr t'. adjustModelWeights t pr = Some t' \<and>
        0.3 \<le> ai (weights t) \<and> ai (weights t) \<le> 0.8 \<and>
        0.2 \<le> technical (weights t) \<and> technical (weights t) \<le> 0.7
      \<longrightarrow> 0.3 \<le> ai (weights t') \<and> ai (weights t') \<le> 0.8 \<and>
          0.2 \<le> technical (weights t') \<and> technical (weights t') \<le> 0.7)"
proof -
  have "0.3 \<le> ai (weights PerformanceTracker_new) \<and> ai (weights PerformanceTracker_new) \<le> 0.8 \<and>
   0.2 \<le> technical (weights PerformanceTracker_new) \<and> technical (weights PerformanceTracker_new) \<le> 0.7 \<and> historical (weights PerformanceTracker_new) = 0"
    by (simp add: PerformanceTracker_new_def)
  from run_keeps_bounds [OF this, of evs] adjustModelWeights_bounds
  show ?thesis by blast
qed

theorem weights_stay_within_bounds_witness:
  "ai (weights (run PerformanceTracker_new
      [Track ''p1'' ''BUY'' 85 100 0 (Some sample_agentData) sample_conditions,
       Validate ''p1'' (Some 99) 900000])) = 0.57
   \<and> 0.3 \<le> ai (weights (run PerformanceTracker_new
      [Track ''p1'' ''BUY'' 85 100 0 (Some sample_agentData) sample_conditions,
       Validate ''p1'' (Some 99) 900000]))
   \<and> technical (weights (run PerformanceTracker_new
      [Track ''p1'' ''BUY'' 85 100 0 (Some sample_agentData) sample_conditions,
       Validate ''p1'' (Some 99) 900000])) \<le> 0.7"
  using weights_stay_within_bounds [of "[Track ''p1'' ''BUY'' 85 100 0 (Some sample_agentData) sample_conditions,
       Validate ''p1'' (Some 99) 900000]"] sample_poor_run
  by simp

section \<open>Properties of the confidence calibration\<close>

lemma groupByRange_eq:
  "groupByRange ps =
     [\<lparr>rmin = 80, rmax = 100, rpredictions = filter (inRange 80 100) ps\<rparr>,
      \<lparr>rmin = 60, rmax = 79, rpredictions = filter (inRange 60 79) ps\<rparr>,
      \<lparr>rmin = 40, rmax = 59, rpredictions = filter (inRange 40 59) ps\<rparr>,
      \<lparr>rmin = 20, rmax = 39, rpredictions = filter (inRange 20 39) ps\<rparr>]"
proof (induction ps rule: rev_induct)
  case Nil
  then show ?case by (simp add: groupByRange_def ranges_init_def)
next
  case (snoc p ps)
  have r: "\<And>lo hi. inRange lo hi p = (lo \<le> p_confidence p \<and> p_confidence p \<le> hi)"
    by (simp add: inRange_def)
  have "groupByRange (ps @ [p]) = assignRange (groupByRange ps) p"
    by (simp add: groupByRange_def)
  also have "\<dots> = assignRange
     [\<lparr>rmin = 80, rmax = 100, rpredictions = filter (inRange 80 100) ps\<rparr>,
      \<lparr>rmin = 60, rmax = 79, rpredictions = filter (inRange 60 79) ps\<rparr>,
      \<lparr>rmin = 40, rmax = 59, rpredictions = filter (inRange 40 59) ps\<rparr>,
      \<lparr>rmin = 20, rmax = 39, rpredictions = filter (inRange 20 39) ps\<rparr>] p"
    by (simp only: snoc.IH)
  also have "\<dots> =
     [\<lparr>rmin = 80, rmax = 100, rpredictions = filter (inRange 80 100) (ps @ [p])\<rparr>,
      \<lparr>rmin = 60, rmax = 79, rpredictions = filter (inRange 60 79) (ps @ [p])\<rparr>,
      \<lparr>rmin = 40, rmax = 59, rpredictions = filter (inRange 40 59) (ps @ [p])\<rparr>,
      \<lparr>rmin = 20, rmax = 39, rpredictions = filter (inRange 20 39) (ps @ [p])\<rparr>]"
    by (simp add: assignRange_def r)
  finally show ?case .
qed

lemma gap_in_no_range:
  assumes "p_confidence p < 20 \<or> (39 < p_confidence p \<and> p_confidence p < 40)
           \<or> (59 < p_confidence p \<and> p_confidence p < 60)
           \<or> (79 < p_confidence p \<and> p_confidence p < 80)"
  shows "\<not> inRange 80 100 p \<and> \<not> inRange 60 79 p \<and> \<not> inRange 40 59 p \<and> \<not> inRange 20 39 p"
  using assms by (auto simp: inRange_def)

lemma ranges_disjoint:
  "\<not> (inRange 80 100 p \<and> inRange 60 79 p)" "\<not> (inRange 80 100 p \<and> inRange 40 59 p)"
  "\<not> (inRange 80 100 p \<and> inRange 20 39 p)" "\<not> (inRange 60 79 p \<and> inRange 40 59 p)"
  "\<not> (inRange 60 79 p \<and> inRange 20 39 p)" "\<not> (inRange 40 59 p \<and> inRange 20 39 p)"
  by (auto simp: inRange_def)

lemma fl55: "\<lfloor>(1490 / 27 :: real) + 1 / 2\<rfloor> = 55"
  by (rule floor_unique) simp_all

lemma sample_combined_confidence:
  "cb_confidence (enhancedCombineAnalysis sample_traditional sample_ai sample_historical
           sample_microstructure (weights PerformanceTracker_new) 11) = 39.6"
proof -
  have r55: "Math_round (1490 / 27) = 55"
    unfolding Math_round_def fl55 by simp
  show ?thesis
    unfolding enhancedCombineAnalysis_def Let_def
    by (simp add: sample_traditional_def sample_ai_def sample_historical_def
      sample_microstructure_def PerformanceTracker_new_def or_num_def num_or_def
      getMicrostructureConfidence_def r55)
qed

text \<open>
  Claim C10: the calibration assigns every prediction to at most one of the four ranges
  80-100, 60-79, 40-59 and 20-39. A prediction whose confidence is below 20, or strictly
  between 39 and 40, 59 and 60, or 79 and 80, is in no range, and the calibration report
  is the same with and without it. The enhanced combination multiplies the rounded
  confidence by the multiplier without rounding again, so it does produce such
  confidences: 39.6 for the sample arguments.
\<close>

theorem calibration_buckets:
  "length (filter (\<lambda>r. p \<in> set (rpredictions r)) (groupByRange ps)) \<le> 1
   \<and> map (\<lambda>r. (rmin r, rmax r)) (groupByRange ps) = [(80, 100), (60, 79), (40, 59), (20, 39)]
   \<and> (p_confidence p < 20 \<or> (39 < p_confidence p \<and> p_confidence p < 40)
           \<or> (59 < p_confidence p \<and> p_confidence p < 60)
           \<or> (79 < p_confidence p \<and> p_confidence p < 80)
       \<longrightarrow> filter (\<lambda>r. p \<in> set (rpredictions r)) (groupByRange (ps @ p # qs)) = []
         \<and> calculateConfidenceCalibration (ps @ p # qs) = calculateConfidenceCalibration (ps @ qs))
   \<and> cb_confidence (enhancedCombineAnalysis sample_traditional sample_ai sample_historical
           sample_microstructure (weights PerformanceTracker_new) 11) = 39.6"
proof -
  have one: "length (filter (\<lambda>r. p \<in> set (rpredictions r)) (groupByRange ps)) \<le> 1"
    unfolding groupByRange_eq using ranges_disjoint [of p] by auto
  have bounds: "map (\<lambda>r. (rmin r, rmax r)) (groupByRange ps) = [(80, 100), (60, 79), (40, 59), (20, 39)]"
    unfolding groupByRange_eq by simp
  have gap: "filter (\<lambda>r. p \<in> set (rpredictions r)) (groupByRange (ps @ p # qs)) = []
         \<and> calculateConfidenceCalibration (ps @ p # qs) = calculateConfidenceCalibration (ps @ qs)"
    if "p_confidence p < 20 \<or> (39 < p_confidence p \<and> p_confidence p < 40)
           \<or> (59 < p_confidence p \<and> p_confidence p < 60)
           \<or> (79 < p_confidence p \<and> p_confidence p < 80)"
    unfolding calculateConfidenceCalibration_def groupByRange_eq
    using gap_in_no_range [OF that] by simp
  show ?thesis using one bounds gap sample_combined_confidence by blast
qed

theorem calibration_buckets_witness:
  "calculateConfidenceCalibration
      [sample_prediction, sample_prediction\<lparr>p_confidence := 39.6\<rparr>, sample_prediction\<lparr>p_confidence := 15\<rparr>]
     = calculateConfidenceCalibration [sample_prediction]"
  using calibration_buckets [where p = "sample_prediction\<lparr>p_confidence := 39.6\<rparr>"
      and ps = "[sample_prediction]" and qs = "[sample_prediction\<lparr>p_confidence := 15\<rparr>]"]
    calibration_buckets [where p = "sample_prediction\<lparr>p_confidence := 15\<rparr>"
      and ps = "[sample_prediction]" and qs = "[]"]
  by simp

section \<open>Properties of the pattern matcher\<close>

text \<open>
  Claim C9 says that with zero similar samples the matcher returns accuracy 50,
  confidence multiplier 1.0 and the insufficient-data pattern. What the code returns:
  accuracy 50 and the insufficient-data pattern, but the confidence adjustment 0.8,
  which \<open>calculateConfidenceAdjustment\<close> gives for the accuracy 50; the fallback result of
  the same method has the adjustment 1.0.
\<close>

theorem analyzeHistoricalPatterns_no_match:
  assumes "findSimilarConditions historicalData current = []"
  shows "similarCount (analyzeHistoricalPatterns historicalData current) = 0
     \<and> h_accuracy (analyzeHistoricalPatterns historicalData current) = 50
     \<and> dominantPattern (analyzeHistoricalPatterns historicalData current) = ''INSUFFICIENT_DATA''
     \<and> confidenceAdjustment (analyzeHistoricalPatterns historicalData current) = 0.8
     \<and> confidenceAdjustment getFallbackHistoricalAnalysis = 1"
  using assms
  by (simp add: analyzeHistoricalPatterns_def Let_def calculatePatternAccuracy_def
      calculateConfidenceAdjustment_def identifyDominantPattern_def
      getFallbackHistoricalAnalysis_def)

theorem analyzeHistoricalPatterns_no_match_witness:
  "findSimilarConditions sample_history sample_current = []
   \<and> h_accuracy (analyzeHistoricalPatterns sample_history sample_current) = 50
   \<and> confidenceAdjustment (analyzeHistoricalPatterns sample_history sample_current) = 0.8"
proof -
  have e: "findSimilarConditions sample_history sample_current = []"
    by (simp add: findSimilarConditions_def sample_history_def sample_current_def Let_def)
  from analyzeHistoricalPatterns_no_match [OF e] e show ?thesis by simp
qed

section \<open>Properties of double rounding\<close>

lemma powi2_Suc: "(2::real) powi (k + 1) = 2 powi k * 2"
  by (simp add: power_int_add)

lemma expo_up_spec:
  "1 \<le> x \<Longrightarrow> 0 \<le> expo_up x \<and> 2 powi (expo_up x) \<le> x \<and> x < 2 powi (expo_up x + 1)"
proof (induction x rule: expo_up.induct)
  case (1 x)
  show ?case
  proof (cases "2 \<le> x")
    case True
    then have "1 \<le> x / 2" by simp
    from 1(1) [OF True this] have ih: "0 \<le> expo_up (x / 2)"
      "2 powi (expo_up (x / 2)) \<le> x / 2" "x / 2 < 2 powi (expo_up (x / 2) + 1)" by auto
    have e: "expo_up x = expo_up (x / 2) + 1" using True by (subst expo_up.simps) simp
    define P where "P = (2::real) powi (expo_up (x / 2))"
    have "P \<le> x / 2" "x / 2 < P * 2" using ih(2,3) by (simp_all only: P_def powi2_Suc)
    then have "P * 2 \<le> x" "x < P * 2 * 2" by linarith+
    then have "2 powi (expo_up (x / 2) + 1) \<le> x" "x < 2 powi (expo_up (x / 2) + 1 + 1)"
      by (simp_all only: P_def powi2_Suc)
    then show ?thesis unfolding e using ih(1) by linarith
  next
    case False
    then have e: "expo_up x = 0" by (subst expo_up.simps) simp
    show ?thesis unfolding e using False 1(2) by simp
  qed
qed

lemma expo_down_spec:
  "0 < x \<Longrightarrow> x < 1 \<Longrightarrow> 2 powi (expo_down x) \<le> x \<and> x < 2 powi (expo_down x + 1)"
proof (induction x rule: expo_down.induct)
  case (1 x)
  have e: "expo_down x = expo_down (x * 2) - 1" using 1(2,3) by (subst expo_down.simps) simp
  define k where "k = expo_down (x * 2) - 1"
  have k1: "expo_down (x * 2) = k + 1" by (simp add: k_def)
  show ?case
  proof (cases "x * 2 < 1")
    case True
    from 1(1) [OF _ _ True] 1(2,3) have "2 powi (k + 1) \<le> x * 2"
      "x * 2 < 2 powi (k + 1 + 1)" unfolding k1 by auto
    then have "2 powi k * 2 \<le> x * 2" "x * 2 < 2 powi (k + 1) * 2"
      by (simp_all only: powi2_Suc)
    then have "2 powi k \<le> x" "x < 2 powi (k + 1)" by linarith+
    then show ?thesis unfolding e k_def [symmetric] by simp
  next
    case False
    then have "expo_down (x * 2) = 0" by (subst expo_down.simps) simp
    then have "k = - 1" by (simp add: k_def)
    then show ?thesis unfolding e k_def [symmetric] using False 1(3)
      by (simp add: power_int_minus)
  qed
qed

lemma expo2_spec: "0 < x \<Longrightarrow> 2 powi (expo2 x) \<le> x \<and> x < 2 powi (expo2 x + 1)"
  using expo_up_spec [of x] expo_down_spec [of x] by (auto simp: expo2_def)

lemma expo2_unique:
  assumes "0 < x" "2 powi e \<le> x" "x < 2 powi (e + 1)"
  shows "expo2 x = e"
proof -
  let ?a = "expo2 x"
  from expo2_spec [OF assms(1)] have a: "2 powi ?a \<le> x" "x < 2 powi (?a + 1)" by auto
  have "?a < e + 1"
  proof (rule ccontr)
    assume "\<not> ?a < e + 1"
    then have "(2::real) powi (e + 1) \<le> 2 powi ?a" by (intro power_int_increasing) auto
    with a(1) assms(3) show False by linarith
  qed
  moreover have "e < ?a + 1"
  proof (rule ccontr)
    assume "\<not> e < ?a + 1"
    then have "(2::real) powi (?a + 1) \<le> 2 powi e" by (intro power_int_increasing) auto
    with a(2) assms(2) show False by linarith
  qed
  ultimately show ?thesis by simp
qed

lemma round_even_near:
  assumes "\<bar>y - of_int m\<bar> < 1 / 2"
  shows "round_even y = m"
proof (cases "of_int m \<le> y")
  case True
  with assms have "\<lfloor>y\<rfloor> = m" by (intro floor_unique) auto
  with assms True show ?thesis by (simp add: round_even_def Let_def)
next
  case False
  with assms have f: "\<lfloor>y\<rfloor> = m - 1" by (intro floor_unique) auto
  have "1 / 2 < y - of_int (m - 1)" using assms False by auto
  then show ?thesis unfolding round_even_def Let_def f by simp
qed

lemma round_even_int: "round_even (of_int m) = m"
  by (rule round_even_near) simp

lemma round_even_lower:
  assumes "of_int a \<le> y"
  shows "a \<le> round_even y"
proof -
  have "a \<le> \<lfloor>y\<rfloor>" using assms by (simp add: le_floor_iff)
  then show ?thesis by (simp add: round_even_def Let_def)
qed

lemma round_even_upper:
  assumes "y \<le> of_int b"
  shows "round_even y \<le> b"
proof (cases "y = of_int b")
  case True
  then show ?thesis by (simp add: round_even_int)
next
  case False
  with assms have "y < of_int b" by simp
  then have "\<lfloor>y\<rfloor> < b" by (simp add: floor_less_iff)
  then show ?thesis by (auto simp: round_even_def Let_def)
qed

lemma fl_pos:
  assumes "0 < x"
  shows "fl x = of_int (round_even (x / 2 powi (expo2 x - 52))) * 2 powi (expo2 x - 52)"
  using assms by (simp add: fl_def Let_def)

lemma fl_cert:
  assumes "0 < x" "2 powi e \<le> x" "x < 2 powi (e + 1)"
    and "\<bar>x / 2 powi (e - 52) - of_int m\<bar> < 1 / 2"
  shows "fl x = of_int m * 2 powi (e - 52)"
  unfolding fl_pos [OF assms(1)] expo2_unique [OF assms(1-3)] round_even_near [OF assms(4)]
  by (rule refl)

lemma fl_exact:
  assumes "0 < m" "m < 2 ^ 53"
  shows "fl (of_int m * 2 powi k) = of_int m * 2 powi k"
proof -
  let ?x = "of_int m * (2::real) powi k"
  have pos: "0 < ?x" using assms(1) by simp
  define e where "e = expo2 ?x"
  from expo2_spec [OF pos] have sp: "2 powi e \<le> ?x" "?x < 2 powi (e + 1)"
    by (simp_all add: e_def)
  have le: "e - 52 \<le> k"
  proof (rule ccontr)
    assume "\<not> e - 52 \<le> k"
    then have "k + 53 \<le> e" by simp
    then have "(2::real) powi (k + 53) \<le> 2 powi e" by (intro power_int_increasing) auto
    moreover have "?x < 2 ^ 53 * 2 powi k"
    proof -
      have "(of_int m :: real) < 2 ^ 53" using assms(2) by (metis of_int_less_iff of_int_numeral of_int_power)
      then show ?thesis by (intro mult_strict_right_mono) auto
    qed
    moreover have "(2::real) powi (k + 53) = 2 ^ 53 * 2 powi k"
      by (simp add: power_int_add)
    ultimately show False using sp(1) by linarith
  qed
  define j where "j = nat (k - (e - 52))"
  have k: "k = (e - 52) + int j" using le by (simp add: j_def)
  have pk: "(2::real) powi k = 2 powi (e - 52) * 2 ^ j"
    by (subst k) (simp add: power_int_add)
  have q: "?x / 2 powi (e - 52) = of_int (m * 2 ^ j)"
    unfolding pk by simp
  have "fl ?x = of_int (round_even (?x / 2 powi (e - 52))) * 2 powi (e - 52)"
    using fl_pos [OF pos] by (simp add: e_def)
  also have "\<dots> = of_int (m * 2 ^ j) * 2 powi (e - 52)"
    unfolding q round_even_int by (rule refl)
  also have "\<dots> = ?x" unfolding pk by simp
  finally show ?thesis .
qed

lemma fl_minus: "fl (- x) = - fl x"
  by (simp add: fl_def Let_def)

lemma fl_zero: "fl 0 = 0"
  by (simp add: fl_def)

lemma fl_idem_pos:
  assumes "0 < x"
  shows "fl (fl x) = fl x"
proof -
  define e where "e = expo2 x"
  define u where "u = (2::real) powi (e - 52)"
  define M where "M = round_even (x / u)"
  have upos: "0 < u" by (simp add: u_def)
  from expo2_spec [OF assms] have sp: "2 powi e \<le> x" "x < 2 powi (e + 1)"
    by (simp_all add: e_def)
  have pe: "(2::real) powi e = 2 ^ 52 * u" "(2::real) powi (e + 1) = 2 ^ 53 * u"
    unfolding u_def by (simp_all add: power_int_diff power_int_add)
  have "2 ^ 52 * u \<le> x" "x < 2 ^ 53 * u" using sp unfolding pe by simp_all
  then have y: "2 ^ 52 \<le> x / u" "x / u \<le> 2 ^ 53"
    using upos by (simp_all add: field_simps)
  have "of_int (2 ^ 52) \<le> x / u" using y(1) by simp
  from round_even_lower [OF this] have lo: "2 ^ 52 \<le> M" by (simp add: M_def)
  have "x / u \<le> of_int (2 ^ 53)" using y(2) by simp
  from round_even_upper [OF this] have hi: "M \<le> 2 ^ 53" by (simp add: M_def)
  have f: "fl x = of_int M * 2 powi (e - 52)"
    using fl_pos [OF assms] by (simp add: e_def u_def M_def)
  show ?thesis
  proof (cases "M < 2 ^ 53")
    case True
    with lo have "0 < M" by simp
    from fl_exact [OF this True] show ?thesis unfolding f .
  next
    case False
    with hi have M: "M = 2 ^ 53" by simp
    have "fl x = of_int 1 * 2 powi (e + 1)" unfolding f M pe u_def by simp
    moreover have "fl (of_int 1 * 2 powi (e + 1)) = of_int 1 * 2 powi (e + 1)"
      by (rule fl_exact) simp_all
    ultimately show ?thesis by simp
  qed
qed

lemma fl_idem: "fl (fl x) = fl x"
proof -
  consider "x = 0" | "0 < x" | "x < 0" by linarith
  then show ?thesis
  proof cases
    case 1
    then show ?thesis by (simp add: fl_zero)
  next
    case 2
    then show ?thesis by (rule fl_idem_pos)
  next
    case 3
    then have "0 < - x" by simp
    from fl_idem_pos [OF this] show ?thesis by (simp add: fl_minus)
  qed
qed

lemma fl_numeral: "(numeral n :: int) < 2 ^ 53 \<Longrightarrow> fl (numeral n) = numeral n"
  using fl_exact [of "numeral n" 0] by simp

lemma fl_one: "fl 1 = 1"
  using fl_exact [of 1 0] by simp

lemma round_even_mono:
  assumes "a \<le> b"
  shows "round_even a \<le> round_even b"
proof (cases "\<lfloor>a\<rfloor> = \<lfloor>b\<rfloor>")
  case True
  have "a - of_int \<lfloor>a\<rfloor> \<le> b - of_int \<lfloor>a\<rfloor>" using assms by simp
  then show ?thesis unfolding round_even_def Let_def True [symmetric] by auto
next
  case False
  have "\<lfloor>a\<rfloor> \<le> \<lfloor>b\<rfloor>" using assms by (rule floor_mono)
  with False have lt: "\<lfloor>a\<rfloor> + 1 \<le> \<lfloor>b\<rfloor>" by simp
  have "round_even a \<le> \<lfloor>a\<rfloor> + 1" by (simp add: round_even_def Let_def)
  moreover have "\<lfloor>b\<rfloor> \<le> round_even b" by (simp add: round_even_def Let_def)
  ultimately show ?thesis using lt by linarith
qed

lemma fl_mono_pos:
  assumes "0 < x" "x \<le> y"
  shows "fl x \<le> fl y"
proof -
  have ypos: "0 < y" using assms by simp
  define ex where "ex = expo2 x"
  define ey where "ey = expo2 y"
  from expo2_spec [OF assms(1)] have sx: "2 powi ex \<le> x" "x < 2 powi (ex + 1)"
    by (simp_all add: ex_def)
  from expo2_spec [OF ypos] have sy: "2 powi ey \<le> y" "y < 2 powi (ey + 1)"
    by (simp_all add: ey_def)
  have fx: "fl x = of_int (round_even (x / 2 powi (ex - 52))) * 2 powi (ex - 52)"
    using fl_pos [OF assms(1)] by (simp add: ex_def)
  have fy: "fl y = of_int (round_even (y / 2 powi (ey - 52))) * 2 powi (ey - 52)"
    using fl_pos [OF ypos] by (simp add: ey_def)
  have le: "ex \<le> ey"
  proof (rule ccontr)
    assume "\<not> ex \<le> ey"
    then have "(2::real) powi (ey + 1) \<le> 2 powi ex" by (intro power_int_increasing) auto
    with sx(1) sy(2) assms(2) show False by linarith
  qed
  show ?thesis
  proof (cases "ex = ey")
    case True
    have "x / 2 powi (ey - 52) \<le> y / 2 powi (ey - 52)"
      using assms(2) by (simp add: divide_right_mono)
    from round_even_mono [OF this] show ?thesis
      unfolding fx fy True by (simp add: mult_right_mono)
  next
    case False
    with le have lt: "ex + 1 \<le> ey" by simp
    have pex: "(2::real) powi (ex + 1) = 2 ^ 53 * 2 powi (ex - 52)"
      by (simp add: power_int_diff power_int_add)
    have pey: "(2::real) powi ey = 2 ^ 52 * 2 powi (ey - 52)"
      by (simp add: power_int_diff)
    have "x / 2 powi (ex - 52) \<le> of_int (2 ^ 53)"
      using sx(2) unfolding pex by (simp add: field_simps)
    from round_even_upper [OF this]
    have "of_int (round_even (x / 2 powi (ex - 52))) \<le> (2 ^ 53 :: real)"
      by (metis of_int_le_iff of_int_numeral of_int_power)
    then have a: "fl x \<le> 2 powi (ex + 1)"
      unfolding fx pex by (simp add: mult_right_mono)
    have "of_int (2 ^ 52) \<le> y / 2 powi (ey - 52)"
      using sy(1) unfolding pey by (simp add: field_simps)
    from round_even_lower [OF this]
    have "(2 ^ 52 :: real) \<le> of_int (round_even (y / 2 powi (ey - 52)))"
      by (metis of_int_le_iff of_int_numeral of_int_power)
    then have b: "2 powi ey \<le> fl y"
      unfolding fy pey by (simp add: mult_right_mono)
    have "(2::real) powi (ex + 1) \<le> 2 powi ey" using lt by (intro power_int_increasing) auto
    with a b show ?thesis by linarith
  qed
qed

lemma fl_nonneg: "0 \<le> x \<Longrightarrow> 0 \<le> fl x"
proof (cases "x = 0")
  case True
  then show ?thesis by (simp add: fl_zero)
next
  case False
  assume "0 \<le> x"
  with False have pos: "0 < x" by simp
  have "0 < x / 2 powi (expo2 x - 52)" using pos by simp
  then have "of_int 0 \<le> x / 2 powi (expo2 x - 52)" by simp
  from round_even_lower [OF this] show ?thesis
    unfolding fl_pos [OF pos] by simp
qed

lemma fl_mono:
  assumes "x \<le> y"
  shows "fl x \<le> fl y"
proof -
  consider "0 < x" | "x \<le> 0" "0 \<le> y" | "y < 0" by linarith
  then show ?thesis
  proof cases
    case 1
    then show ?thesis using assms by (rule fl_mono_pos)
  next
    case 2
    have "0 \<le> fl (- x)" using 2(1) by (intro fl_nonneg) simp
    then have "fl x \<le> 0" by (simp add: fl_minus)
    moreover have "0 \<le> fl y" using 2(2) by (rule fl_nonneg)
    ultimately show ?thesis by linarith
  next
    case 3
    then have "0 < - y" "- y \<le> - x" using assms by simp_all
    from fl_mono_pos [OF this] show ?thesis by (simp add: fl_minus)
  qed
qed


lemma fl_cert_tie:
  assumes "0 < x" "2 powi e \<le> x" "x < 2 powi (e + 1)"
    and "x / 2 powi (e - 52) = of_int f + 1 / 2"
    and "m = (if even f then f else f + 1)"
  shows "fl x = of_int m * 2 powi (e - 52)"
proof -
  have "\<lfloor>x / 2 powi (e - 52)\<rfloor> = f" unfolding assms(4) by (intro floor_unique) auto
  then have "round_even (x / 2 powi (e - 52)) = m"
    unfolding round_even_def Let_def using assms(4,5) by simp
  then show ?thesis
    unfolding fl_pos [OF assms(1)] expo2_unique [OF assms(1-3)] by simp
qed

lemma Math_round_eqI:
  "of_int k \<le> x + 1 / 2 \<Longrightarrow> x + 1 / 2 < of_int k + 1 \<Longrightarrow> Math_round x = of_int k"
  unfolding Math_round_def by (simp add: floor_unique)

section \<open>Properties of the fusion\<close>

lemma processAgent_Risk: "processAgent w rs a Risk = a"
  by (simp add: processAgent_def Let_def split: option.split)

lemma tallyOf_unfold:
  "tallyOf w rs =
     processAgent w rs (processAgent w rs (processAgent w rs tally_init Technical) Sentiment)
       Research"
  by (simp add: tallyOf_def Object_keys_def processAgent_Risk)

lemma processAgent_risk_update:
  "k \<noteq> Risk \<Longrightarrow> processAgent w (rs\<lparr>res_risk := r\<rparr>) a k = processAgent w rs a k"
  by (cases k) (simp_all add: processAgent_def resultOf_def)

lemma tallyOf_risk_update: "tallyOf w (rs\<lparr>res_risk := r\<rparr>) = tallyOf w rs"
  by (simp add: tallyOf_unfold processAgent_risk_update)

lemma action_eq: "action (aggregateSignals w rs) = finalActionOf (sigs (tallyOf w rs))"
  by (simp add: aggregateSignals_def Let_def)

lemma confidence_eq:
  "confidence (aggregateSignals w rs) =
     max 20 (min 95
       (Math_round (dmul (baseConfidenceOf (tallyOf w rs)) (riskModifier (res_risk rs)))))"
  by (simp add: aggregateSignals_def Let_def)

lemma riskAdjustment_eq:
  "riskAdjustment (aggregateSignals w rs)
     = Math_round (dmul (dsub 1 (riskModifier (res_risk rs))) 100)"
  by (simp add: aggregateSignals_def Let_def)

text \<open>What one round of the loop does to the counters and to the BUY and SELL scores.\<close>

lemma processAgent_counts:
  "totalConfidence (processAgent w rs a k) =
     (if k \<noteq> Risk \<and> reports (resultOf rs k)
      then dadd (totalConfidence a) (num_or (ar_confidence (resultOf rs k)) 50)
      else totalConfidence a)"
  "validAgents (processAgent w rs a k) =
     (if k \<noteq> Risk \<and> reports (resultOf rs k) then validAgents a + 1 else validAgents a)"
  by (auto simp add: processAgent_def reports_def truthy_def Let_def split: option.splits)

lemma processAgent_BUY:
  "BUY (sigs (processAgent w rs a k)) =
     (if k \<noteq> Risk \<and> votesBuy (resultOf rs k)
      then dadd (BUY (sigs a))
             (dmul (weightOf w k) (ddiv (num_or (ar_confidence (resultOf rs k)) 50) 100))
      else BUY (sigs a))"
  by (auto simp add: processAgent_def votesBuy_def Let_def split: option.splits)

lemma processAgent_SELL:
  "SELL (sigs (processAgent w rs a k)) =
     (if k \<noteq> Risk \<and> votesSell (resultOf rs k)
      then dadd (SELL (sigs a))
             (dmul (weightOf w k) (ddiv (num_or (ar_confidence (resultOf rs k)) 50) 100))
      else SELL (sigs a))"
  by (auto simp add: processAgent_def votesSell_def Let_def split: option.splits)

lemma base_is_average: "baseConfidenceOf (tallyOf w rs) = averageConfidence rs"
  by (simp add: baseConfidenceOf_def tallyOf_unfold processAgent_counts resultOf_def
        tally_init_def averageConfidence_def countedConfidences_def)

lemma average_is_double: "fl (averageConfidence rs) = averageConfidence rs"
  by (simp add: averageConfidence_def ddiv_def fl_idem fl_numeral)

lemma sigs_unanimous:
  assumes "ar_signal (res_technical rs) = Some X" "ar_signal (res_sentiment rs) = Some X"
    "ar_signal (res_research rs) = Some X"
    and "X = ''BUY'' \<or> X = ''SELL'' \<or> X = ''HOLD''"
  shows "sigs (tallyOf w rs) =
     (if X = ''BUY'' then \<lparr>BUY = weightedVote w rs, SELL = 0, HOLD = 0\<rparr>
      else if X = ''SELL'' then \<lparr>BUY = 0, SELL = weightedVote w rs, HOLD = 0\<rparr>
      else \<lparr>BUY = 0, SELL = 0, HOLD = weightedVote w rs\<rparr>)"
  using assms
  by (auto simp add: tallyOf_unfold processAgent_def resultOf_def weightOf_def tally_init_def
        Let_def weightedVote_def)

lemma threshold_nonneg: "0 \<le> fl 0.4"
  by (rule fl_nonneg) simp

lemma unanimous_formula:
  assumes "ar_signal (res_technical rs) = Some X" "ar_signal (res_sentiment rs) = Some X"
    "ar_signal (res_research rs) = Some X"
    and "X = ''BUY'' \<or> X = ''SELL'' \<or> X = ''HOLD''"
  shows "action (aggregateSignals w rs) =
           (if X \<noteq> ''HOLD'' \<and> weightedVote w rs > fl 0.4 then X else ''HOLD'')"
  unfolding action_eq sigs_unanimous [OF assms]
  using assms(4) threshold_nonneg by (auto simp: finalActionOf_def Let_def)

lemma finalActionOf_HOLD:
  "BUY s \<le> fl 0.4 \<Longrightarrow> SELL s \<le> fl 0.4 \<Longrightarrow> finalActionOf s = ''HOLD''"
  by (simp add: finalActionOf_def Let_def)

text \<open>One vote with a weight of at most 0.4 and a confidence of at most 100 stays at or
  below the threshold.\<close>

lemma one_vote_bound:
  assumes "0 \<le> w" "w \<le> 0.4" "c \<le> 100"
  shows "dadd 0 (dmul (fl w) (ddiv c 100)) \<le> fl 0.4"
proof -
  have "c / 100 \<le> 1" using assms(3) by simp
  then have "ddiv c 100 \<le> 1" unfolding ddiv_def using fl_mono [of "c / 100" 1] by (simp add: fl_one)
  moreover have "0 \<le> fl w" using assms(1) by (rule fl_nonneg)
  ultimately have "fl w * ddiv c 100 \<le> fl w * 1" by (intro mult_left_mono)
  then have "dmul (fl w) (ddiv c 100) \<le> fl w"
    unfolding dmul_def using fl_mono [of "fl w * ddiv c 100" "fl w"] by (simp add: fl_idem)
  then have "dadd 0 (dmul (fl w) (ddiv c 100)) \<le> fl w"
    unfolding dadd_def using fl_mono [of "dmul (fl w) (ddiv c 100)" "fl w"] by (simp add: fl_idem)
  moreover have "fl w \<le> fl 0.4" using assms(2) by (intro fl_mono) simp
  ultimately show ?thesis by linarith
qed

lemma few_voters_hold:
  assumes "buyVoters rs < 2" "sellVoters rs < 2"
    and c1: "num_or (ar_confidence (res_technical rs)) 50 \<le> 100"
    and c2: "num_or (ar_confidence (res_sentiment rs)) 50 \<le> 100"
    and c3: "num_or (ar_confidence (res_research rs)) 50 \<le> 100"
  shows "finalActionOf (sigs (tallyOf default_agentWeights rs)) = ''HOLD''"
proof -
  let ?w = default_agentWeights
  note b1 = one_vote_bound [of "0.35", OF _ _ c1] one_vote_bound [of "0.25", OF _ _ c2]
    one_vote_bound [of "0.25", OF _ _ c3]
  have z: "(0::real) \<le> fl 0.4" by (rule threshold_nonneg)
  have "BUY (sigs (tallyOf ?w rs)) \<le> fl 0.4"
    using assms(1) b1 z
    by (simp add: tallyOf_unfold processAgent_BUY resultOf_def weightOf_def tally_init_def
          default_agentWeights_def buyVoters_def split: if_splits)
  moreover have "SELL (sigs (tallyOf ?w rs)) \<le> fl 0.4"
    using assms(2) b1 z
    by (simp add: tallyOf_unfold processAgent_SELL resultOf_def weightOf_def tally_init_def
          default_agentWeights_def sellVoters_def split: if_splits)
  ultimately show ?thesis by (rule finalActionOf_HOLD)
qed

lemma enhanced_clamped:
  "\<exists>x. cb_confidence (enhancedCombineAnalysis trad aia hist micro ow h) = min 95 (max 20 x)"
  unfolding enhancedCombineAnalysis_def Let_def
  by (simp only: combined.select_convs) (rule exI, rule refl)

text \<open>The sample inputs, evaluated in double arithmetic.\<close>

lemma average_unanimous: "averageConfidence sample_unanimous = 70"
  by (simp add: averageConfidence_def countedConfidences_def sample_unanimous_def reports_def
        truthy_def num_or_def dadd_def ddiv_def fl_numeral riskAgent_errorResult_def)

lemma average_degraded: "averageConfidence sample_degraded = 50"
  by (simp add: averageConfidence_def countedConfidences_def sample_degraded_def reports_def
        truthy_def num_or_def dadd_def ddiv_def fl_numeral sentimentAgent_fallback_def
        researchAgent_fallback_def)

lemma vote_hesitant: "\<not> weightedVote default_agentWeights sample_hesitant > fl 0.4"
proof -
  have c0: "fl (7 / 20) = 3152519739159347 / 9007199254740992"
    using fl_cert [of "7 / 20" "- 2" 6305039478318694] by simp
  have c1: "fl (2 / 5) = 3602879701896397 / 9007199254740992"
    using fl_cert [of "2 / 5" "- 2" 7205759403792794] by simp
  have c2: "fl (11358149378044935347338468172759 / 81129638414606681695789005144064) = 5044031582654955 / 36028797018963968"
    using fl_cert [of "11358149378044935347338468172759 / 81129638414606681695789005144064" "- 3" 5044031582654955] by simp
  have c3: "fl (5044031582654955 / 36028797018963968) = 5044031582654955 / 36028797018963968"
    using fl_cert [of "5044031582654955 / 36028797018963968" "- 3" 5044031582654955] by simp
  have c4: "fl (1 / 4) = 1 / 4"
    using fl_cert [of "1 / 4" "- 2" 4503599627370496] by simp
  have c5: "fl (3602879701896397 / 36028797018963968) = 3602879701896397 / 36028797018963968"
    using fl_cert [of "3602879701896397 / 36028797018963968" "- 4" 7205759403792794] by simp
  have c6: "fl (1080863910568919 / 4503599627370496) = 1080863910568919 / 4503599627370496"
    using fl_cert [of "1080863910568919 / 4503599627370496" "- 3" 8646911284551352] by simp
  have c7: "fl (12249790986447749 / 36028797018963968) = 3062447746611937 / 9007199254740992"
    using fl_cert_tie [of "12249790986447749 / 36028797018963968" "- 2" 6124895493223874 6124895493223874] by simp
  show ?thesis
    by (simp add: weightedVote_def default_agentWeights_def sample_hesitant_def num_or_def
        dadd_def dmul_def ddiv_def c0 c1 c2 c3 c4 c5 c6 c7)
qed

lemma vote_cautious: "weightedVote default_agentWeights sample_cautious > fl 0.4"
proof -
  have c0: "fl (7 / 20) = 3152519739159347 / 9007199254740992"
    using fl_cert [of "7 / 20" "- 2" 6305039478318694] by simp
  have c1: "fl (17 / 20) = 7656119366529843 / 9007199254740992"
    using fl_cert [of "17 / 20" "- 1" 7656119366529843] by simp
  have c2: "fl (24136067428345485642769407892521 / 81129638414606681695789005144064) = 2679641778285445 / 9007199254740992"
    using fl_cert [of "24136067428345485642769407892521 / 81129638414606681695789005144064" "- 2" 5359283556570890] by simp
  have c3: "fl (2679641778285445 / 9007199254740992) = 2679641778285445 / 9007199254740992"
    using fl_cert [of "2679641778285445 / 9007199254740992" "- 2" 5359283556570890] by simp
  have c4: "fl (1 / 4) = 1 / 4"
    using fl_cert [of "1 / 4" "- 2" 4503599627370496] by simp
  have c5: "fl (7656119366529843 / 36028797018963968) = 7656119366529843 / 36028797018963968"
    using fl_cert [of "7656119366529843 / 36028797018963968" "- 3" 7656119366529843] by simp
  have c6: "fl (18374686479671623 / 36028797018963968) = 2296835809958953 / 4503599627370496"
    using fl_cert [of "18374686479671623 / 36028797018963968" "- 1" 4593671619917906] by simp
  have c7: "fl (26030805846201467 / 36028797018963968) = 6507701461550367 / 9007199254740992"
    using fl_cert [of "26030805846201467 / 36028797018963968" "- 1" 6507701461550367] by simp
  have c8: "fl (2 / 5) = 3602879701896397 / 9007199254740992"
    using fl_cert [of "2 / 5" "- 2" 7205759403792794] by simp
  show ?thesis
    by (simp add: weightedVote_def default_agentWeights_def sample_cautious_def num_or_def
        dadd_def dmul_def ddiv_def c0 c1 c2 c3 c4 c5 c6 c7 c8)
qed

lemma derated_cautious:
  "Math_round (dmul (averageConfidence sample_cautious) (fl 0.7)) = 59"
proof -
  have c3: "fl (7 / 10) = 3152519739159347 / 4503599627370496"
    using fl_cert [of "7 / 10" "- 1" 6305039478318694] by simp
  have c4: "fl (267964177828544495 / 4503599627370496) = 8373880557142015 / 140737488355328"
    using fl_cert [of "267964177828544495 / 4503599627370496" "5" 8373880557142015] by simp
  have d: "dmul (averageConfidence sample_cautious) (fl 0.7) = 8373880557142015 / 140737488355328"
    by (simp add: averageConfidence_def countedConfidences_def sample_cautious_def reports_def
        truthy_def num_or_def dadd_def ddiv_def dmul_def fl_numeral c3 c4)
  have "Math_round (8373880557142015 / 140737488355328) = of_int 59"
    by (rule Math_round_eqI) simp_all
  then show ?thesis unfolding d by simp
qed

lemma derated_degraded_cautious:
  "Math_round (dmul (averageConfidence sample_degraded_cautious) (fl 0.7)) = 34"
proof -
  have c3: "fl (145 / 3) = 6802311937174187 / 140737488355328"
    using fl_cert [of "145 / 3" "5" 6802311937174187] by simp
  have c4: "fl (7 / 10) = 3152519739159347 / 4503599627370496"
    using fl_cert [of "7 / 10" "- 1" 6305039478318694] by simp
  have c5: "fl (21444422653860880399030088175889 / 633825300114114700748351602688) = 4761618356021931 / 140737488355328"
    using fl_cert [of "21444422653860880399030088175889 / 633825300114114700748351602688" "5" 4761618356021931] by simp
  have d: "dmul (averageConfidence sample_degraded_cautious) (fl 0.7) = 4761618356021931 / 140737488355328"
    by (simp add: averageConfidence_def countedConfidences_def sample_degraded_cautious_def
        reports_def truthy_def num_or_def dadd_def ddiv_def dmul_def fl_numeral
        sentimentAgent_fallback_def researchAgent_fallback_def c3 c4 c5)
  have "Math_round (4761618356021931 / 140737488355328) = of_int 34"
    by (rule Math_round_eqI) simp_all
  then show ?thesis unfolding d by simp
qed

lemma adjustment_cautious: "Math_round (dmul (dsub 1 (fl 0.7)) 100) = 30"
proof -
  have c0: "fl (7 / 10) = 3152519739159347 / 4503599627370496"
    using fl_cert [of "7 / 10" "- 1" 6305039478318694] by simp
  have c1: "fl (1351079888211149 / 4503599627370496) = 1351079888211149 / 4503599627370496"
    using fl_cert [of "1351079888211149 / 4503599627370496" "- 2" 5404319552844596] by simp
  have c2: "fl (33776997205278725 / 1125899906842624) = 8444249301319681 / 281474976710656"
    using fl_cert [of "33776997205278725 / 1125899906842624" "4" 8444249301319681] by simp
  have d: "dmul (dsub 1 (fl 0.7)) 100 = 8444249301319681 / 281474976710656"
    by (simp add: dmul_def dsub_def fl_numeral c0 c1 c2)
  have "Math_round (8444249301319681 / 281474976710656) = of_int 30"
    by (rule Math_round_eqI) simp_all
  then show ?thesis unfolding d by simp
qed

lemma adjustment_avoid: "Math_round (dmul (dsub 1 (fl 0.3)) 100) = 70"
proof -
  have c0: "fl (3 / 10) = 5404319552844595 / 18014398509481984"
    using fl_cert [of "3 / 10" "- 2" 5404319552844595] by simp
  have c1: "fl (12610078956637389 / 18014398509481984) = 3152519739159347 / 4503599627370496"
    using fl_cert_tie [of "12610078956637389 / 18014398509481984" "- 1" 6305039478318694 6305039478318694] by simp
  have c2: "fl (78812993478983675 / 1125899906842624) = 70"
    using fl_cert [of "78812993478983675 / 1125899906842624" "6" 4925812092436480] by simp
  have d: "dmul (dsub 1 (fl 0.3)) 100 = 70"
    by (simp add: dmul_def dsub_def fl_numeral c0 c1 c2)
  have "Math_round (70) = of_int 70"
    by (rule Math_round_eqI) simp_all
  then show ?thesis unfolding d by simp
qed

lemma reasoning_eq:
  "reasoning (aggregateSignals w rs) = reasoningParts (tallyOf w rs) @ [riskLine (res_risk rs)]"
  by (simp add: aggregateSignals_def Let_def)

lemma derate_none: "dmul (averageConfidence rs) 1 = averageConfidence rs"
  by (simp add: dmul_def average_is_double)

lemma adjustment_none: "Math_round (dmul (dsub 1 1) 100) = 0"
  by (simp add: dmul_def dsub_def fl_zero Math_round_def)

lemma hesitant_holds: "action (aggregateSignals default_agentWeights sample_hesitant) = ''HOLD''"
  using unanimous_formula [where rs = sample_hesitant and X = "''BUY''" and w = default_agentWeights]
    vote_hesitant
  by (simp add: sample_hesitant_def)

lemma degraded_holds:
  "action (aggregateSignals default_agentWeights sample_degraded) = ''HOLD''
   \<and> confidence (aggregateSignals default_agentWeights sample_degraded) = 50"
proof -
  have "finalActionOf (sigs (tallyOf default_agentWeights sample_degraded)) = ''HOLD''"
    by (rule few_voters_hold)
      (simp_all add: sample_degraded_def buyVoters_def sellVoters_def votesBuy_def votesSell_def
        sentimentAgent_fallback_def researchAgent_fallback_def num_or_def)
  moreover have "riskModifier (res_risk sample_degraded) = 1"
    by (simp add: riskModifier_def sample_degraded_def)
  moreover have "Math_round 50 = 50"
    by (simp add: Math_round_def)
  ultimately show ?thesis
    by (simp add: action_eq confidence_eq base_is_average average_degraded dmul_def fl_numeral)
qed

text \<open>
  Claim C1: the confidence of the fused decision lies in [20, 95]. This holds for
  \<open>aggregateSignals\<close> on all results and weights, the clamp being the last step after
  the risk modifier is applied, and for the enhanced combination whenever the weights it
  normalises sum to a positive total.
\<close>

theorem fused_confidence_bounded:
  "20 \<le> confidence (aggregateSignals w rs) \<and> confidence (aggregateSignals w rs) \<le> 95
   \<and> (0 < ai ow + technical ow + or_num (historical ow) 0.2 + 0.15 \<longrightarrow>
        20 \<le> cb_confidence (enhancedCombineAnalysis trad aia hist micro ow h)
        \<and> cb_confidence (enhancedCombineAnalysis trad aia hist micro ow h) \<le> 95)"
proof -
  obtain x where
    "cb_confidence (enhancedCombineAnalysis trad aia hist micro ow h) = min 95 (max 20 x)"
    using enhanced_clamped by blast
  then show ?thesis by (simp add: confidence_eq)
qed

theorem fused_confidence_bounded_witness:
  "20 \<le> confidence (aggregateSignals default_agentWeights sample_unanimous)
   \<and> confidence (aggregateSignals default_agentWeights sample_unanimous) \<le> 95
   \<and> 20 \<le> cb_confidence (enhancedCombineAnalysis sample_traditional sample_ai sample_historical
           sample_microstructure (weights PerformanceTracker_new) 11)
   \<and> cb_confidence (enhancedCombineAnalysis sample_traditional sample_ai sample_historical
           sample_microstructure (weights PerformanceTracker_new) 11) \<le> 95"
  using fused_confidence_bounded [where w = default_agentWeights and rs = sample_unanimous
      and ow = "weights PerformanceTracker_new" and trad = sample_traditional and aia = sample_ai
      and hist = sample_historical and micro = sample_microstructure and h = 11]
  by (simp add: PerformanceTracker_new_def or_num_def)

text \<open>
  Claim C4, as stated: when all voting agents report the same action, that action is
  the fused action. The code does otherwise: three agents reporting BUY at confidence 40
  are fused to HOLD.
\<close>

theorem unanimous_action_counterexample:
  "ar_signal (res_technical sample_hesitant) = Some ''BUY''
   \<and> ar_signal (res_sentiment sample_hesitant) = Some ''BUY''
   \<and> ar_signal (res_research sample_hesitant) = Some ''BUY''
   \<and> action (aggregateSignals default_agentWeights sample_hesitant) = ''HOLD''
   \<and> action (aggregateSignals default_agentWeights sample_hesitant) \<noteq> ''BUY''"
  by (simp add: hesitant_holds) (simp add: sample_hesitant_def)

text \<open>
  Claim C4, amended: when the three voting agents report the same action X among BUY,
  SELL and HOLD, the fused action is X if X is HOLD, or if X is BUY or SELL and the sum
  of weight times confidence over 100, computed in doubles as the loop does, exceeds the
  double 0.4; otherwise it is HOLD. The risk result never changes the action: replacing
  it leaves the action as it is, and the confidence is the clamp to [20, 95] of the
  rounded double product of the average confidence and the risk modifier.
\<close>

theorem unanimous_action:
  assumes "ar_signal (res_technical rs) = Some X" "ar_signal (res_sentiment rs) = Some X"
    "ar_signal (res_research rs) = Some X"
    and "X = ''BUY'' \<or> X = ''SELL'' \<or> X = ''HOLD''"
  shows "action (aggregateSignals w rs) =
           (if X \<noteq> ''HOLD'' \<and> weightedVote w rs > fl 0.4 then X else ''HOLD'')
     \<and> action (aggregateSignals w (rs\<lparr>res_risk := r\<rparr>)) = action (aggregateSignals w rs)
     \<and> confidence (aggregateSignals w (rs\<lparr>res_risk := r\<rparr>)) =
         max 20 (min 95 (Math_round (dmul (averageConfidence rs) (riskModifier r))))"
  using unanimous_formula [OF assms, of w] base_is_average [of w rs]
  by (simp add: action_eq confidence_eq tallyOf_risk_update)

theorem unanimous_action_witness:
  "action (aggregateSignals default_agentWeights sample_cautious) = ''BUY''
   \<and> action (aggregateSignals default_agentWeights
        (sample_cautious\<lparr>res_risk := \<lparr>ar_signal = Some ''AVOID_TRADE'', ar_confidence = Some 90\<rparr>\<rparr>))
       = ''BUY''
   \<and> confidence (aggregateSignals default_agentWeights
        (sample_cautious\<lparr>res_risk := \<lparr>ar_signal = Some ''CAUTIOUS_TRADE'', ar_confidence = Some 60\<rparr>\<rparr>))
       = 59"
  using unanimous_action [where rs = sample_cautious and X = "''BUY''" and w = default_agentWeights
      and r = "\<lparr>ar_signal = Some ''AVOID_TRADE'', ar_confidence = Some 90\<rparr>"]
    unanimous_action [where rs = sample_cautious and X = "''BUY''" and w = default_agentWeights
      and r = "\<lparr>ar_signal = Some ''CAUTIOUS_TRADE'', ar_confidence = Some 60\<rparr>"]
    vote_cautious derated_cautious
  by (simp add: sample_cautious_def riskModifier_def)

text \<open>
  Claim C7, as stated: with fewer than 2 reporting sources the decision is HOLD with
  confidence exactly 20 and a degraded-mode flag. The code does otherwise. An agent that
  fails still returns a result, with the signal HOLD, and the loop counts it: with the
  technical agent reporting BUY at confidence 90 and the fallback results of the
  sentiment and of the research agent (HOLD at confidence 30) the decision is HOLD with
  confidence 50, and the decision has no such flag.
\<close>

theorem degraded_fusion_counterexample:
  "res_sentiment sample_degraded = sentimentAgent_fallback
   \<and> res_research sample_degraded = researchAgent_fallback
   \<and> action (aggregateSignals default_agentWeights sample_degraded) = ''HOLD''
   \<and> confidence (aggregateSignals default_agentWeights sample_degraded) = 50
   \<and> confidence (aggregateSignals default_agentWeights sample_degraded) \<noteq> 20"
  by (simp add: degraded_holds) (simp add: sample_degraded_def)

text \<open>
  Claim C7, amended: with the constructor's weights and confidences of at most 100, when
  fewer than 2 voting agents vote BUY and fewer than 2 vote SELL, as is the case when at
  most one agent reports and the others return their failure results or no signal, the
  fused action is HOLD, and the confidence is the clamp to [20, 95] of the rounded double
  product of the risk modifier and the average of the confidences of all voting agents
  with a signal, the failed ones included (50 when there is none).
\<close>

theorem degraded_fusion:
  assumes "buyVoters rs < 2" "sellVoters rs < 2"
    and "num_or (ar_confidence (res_technical rs)) 50 \<le> 100"
    and "num_or (ar_confidence (res_sentiment rs)) 50 \<le> 100"
    and "num_or (ar_confidence (res_research rs)) 50 \<le> 100"
  shows "action (aggregateSignals default_agentWeights rs) = ''HOLD'' \<and>
         confidence (aggregateSignals default_agentWeights rs) =
           max 20 (min 95
             (Math_round (dmul (averageConfidence rs) (riskModifier (res_risk rs)))))"
  using few_voters_hold [OF assms] by (simp add: action_eq confidence_eq base_is_average)

theorem degraded_fusion_witness:
  "buyVoters sample_degraded_cautious < 2 \<and> sellVoters sample_degraded_cautious < 2
   \<and> action (aggregateSignals default_agentWeights sample_degraded_cautious) = ''HOLD''
   \<and> confidence (aggregateSignals default_agentWeights sample_degraded_cautious) = 34"
  using degraded_fusion [of sample_degraded_cautious] derated_degraded_cautious
  by (simp add: sample_degraded_cautious_def buyVoters_def sellVoters_def votesBuy_def
        votesSell_def sentimentAgent_fallback_def researchAgent_fallback_def num_or_def
        riskModifier_def)

text \<open>
  Claim C8: a missing risk opinion gives the derate 0.7, never 1.0. The code does
  otherwise. The derate is 0.7 only for the risk signal CAUTIOUS_TRADE and 0.3 only for
  AVOID_TRADE; for every other risk result, a missing signal and the HOLD the risk agent
  returns when it fails included, the base confidence is kept as it is, the reported risk
  adjustment is 0 and the reasoning ends with the line that approves the trade. With
  three agents reporting BUY at 80, 70 and 60 and the failed risk agent's result the
  confidence is 70, where the derate 0.7 gives 49.
\<close>

theorem risk_derate:
  "(ar_signal (res_risk rs) \<noteq> Some ''AVOID_TRADE''
      \<and> ar_signal (res_risk rs) \<noteq> Some ''CAUTIOUS_TRADE''
      \<longrightarrow> confidence (aggregateSignals w rs)
            = max 20 (min 95 (Math_round (averageConfidence rs)))
        \<and> riskAdjustment (aggregateSignals w rs) = 0
        \<and> last (reasoning (aggregateSignals w rs)) = Line ''Risk: LOW - Trade approved'')
   \<and> (ar_signal (res_risk rs) = Some ''CAUTIOUS_TRADE''
      \<longrightarrow> confidence (aggregateSignals w rs)
            = max 20 (min 95 (Math_round (dmul (averageConfidence rs) (fl 0.7))))
        \<and> riskAdjustment (aggregateSignals w rs) = 30)
   \<and> (ar_signal (res_risk rs) = Some ''AVOID_TRADE''
      \<longrightarrow> confidence (aggregateSignals w rs)
            = max 20 (min 95 (Math_round (dmul (averageConfidence rs) (fl 0.3))))
        \<and> riskAdjustment (aggregateSignals w rs) = 70)"
  using adjustment_cautious adjustment_avoid adjustment_none
  by (simp add: confidence_eq riskAdjustment_eq reasoning_eq base_is_average riskModifier_def
        riskLine_def derate_none)

theorem risk_derate_witness:
  "res_risk sample_unanimous = riskAgent_errorResult
   \<and> confidence (aggregateSignals default_agentWeights sample_unanimous) = 70
   \<and> confidence (aggregateSignals default_agentWeights sample_unanimous) \<noteq> 49
   \<and> riskAdjustment (aggregateSignals default_agentWeights sample_unanimous) = 0
   \<and> last (reasoning (aggregateSignals default_agentWeights sample_unanimous))
       = Line ''Risk: LOW - Trade approved''"
  using risk_derate [of sample_unanimous default_agentWeights] average_unanimous
  by (simp add: sample_unanimous_def riskAgent_errorResult_def Math_round_def)

end
